theory Spec2Isabelle
  imports Complex_Main
begin

section \<open>Data model\<close>

text \<open>
  The storefront keeps its state in relational tables (\<^verbatim>\<open>src/config/initDatabase.js\<close>).
  Each table a cart or order route touches is a list of rows, in insertion order; the
  AUTO_INCREMENT counters of \<^verbatim>\<open>cart_items\<close> and \<^verbatim>\<open>orders\<close> are part of the
  state. Currency columns are DECIMAL(10,2): a stored amount is an integer number of
  hundredths. The \<^verbatim>\<open>stock\<close> and \<^verbatim>\<open>quantity\<close> columns are signed INT without a
  CHECK constraint: an \<open>int\<close> that may become negative.
\<close>

type_synonym money = int

datatype product_status = Active | Inactive

datatype order_status = Pending | Processing | Shipped | Delivered | Cancelled

record product =
  p_id :: int
  p_name :: string
  p_price :: money
  p_stock :: int
  p_status :: product_status

record cart_session =
  cs_session_id :: string
  cs_user_id :: "int option"

record cart_item =
  ci_id :: int
  ci_session_id :: string
  ci_product_id :: int
  ci_quantity :: int

record order_row =
  o_id :: int
  o_order_number :: string
  o_user_id :: int
  o_status :: order_status
  o_subtotal :: money
  o_shipping_cost :: money
  o_tax_amount :: money
  o_total_amount :: money
  o_shipping_address :: string
  o_shipping_city :: string
  o_shipping_state :: string
  o_shipping_zip_code :: string
  o_shipping_method :: string

record order_item_row =
  oi_order_id :: int
  oi_product_id :: int
  oi_product_name :: string
  oi_product_price :: money
  oi_quantity :: int
  oi_total_price :: money

record db =
  products :: "product list"
  cart_sessions :: "cart_session list"
  cart_items :: "cart_item list"
  orders :: "order_row list"
  order_items :: "order_item_row list"
  next_cart_item_id :: int
  next_order_id :: int

text \<open>
  An HTTP reply: the status code, the fixed part of the \<^verbatim>\<open>message\<close> field and the
  data the body carries besides it.
\<close>

datatype payload =
    NoPayload
  | ValidationErrors
  | InStock int
  | SessionId "string option"
  | OrderInfo int string money

datatype response = Response (status: nat) (message: string) (payload: payload)

section \<open>Request values and their conversions\<close>

text \<open>
  A JavaScript number is modelled by the real number it stands for (the rounding of
  IEEE doubles inside an arithmetic operation is not modelled). Where such a number is
  written to a DECIMAL(10,2) or an INT column MySQL rounds it to the column's scale, ties
  away from zero; \<^verbatim>\<open>Number.prototype.toFixed\<close> rounds the same way. The results are
  counted in hundredths and in units.
\<close>

definition round_half_away :: "real \<Rightarrow> int" where
  "round_half_away x = (if 0 \<le> x then \<lfloor>x + 1 / 2\<rfloor> else - \<lfloor>- x + 1 / 2\<rfloor>)"

definition decimal_column :: "real \<Rightarrow> money" where
  "decimal_column x = round_half_away (x * 100)"

definition int_column :: "real \<Rightarrow> int" where
  "int_column x = round_half_away x"

definition toFixed2 :: "real \<Rightarrow> money" where
  "toFixed2 x = round_half_away (x * 100)"

text \<open>
  A body field checked by express-validator's \<^verbatim>\<open>isInt()\<close> reaches the handler as the
  JSON value that was sent, since no \<^verbatim>\<open>toInt()\<close> sanitizer follows: an integer number
  or a string. (A number that is not an integer fails \<^verbatim>\<open>isInt\<close> like any other
  rejected value and is not represented.)
\<close>

datatype json = JNum int | JStr string

definition is_digit :: "char \<Rightarrow> bool" where
  "is_digit c = (c \<in> set ''0123456789'')"

definition digit_value :: "char \<Rightarrow> int" where
  "digit_value c = int (length (takeWhile (\<lambda>x. x \<noteq> c) ''0123456789''))"

definition digits_value :: "string \<Rightarrow> int" where
  "digits_value s = foldl (\<lambda>acc c. 10 * acc + digit_value c) 0 s"

text \<open>
  The number a string of decimal digits with an optional sign denotes; \<open>None\<close> for any
  other string. This is the pattern \<^verbatim>\<open>isInt\<close> accepts (leading zeroes allowed), and on
  strings made of digits and signs only it is JavaScript's conversion of a string to a
  number, \<open>None\<close> being \<^verbatim>\<open>NaN\<close>.
\<close>

definition string_number :: "string \<Rightarrow> int option" where
  "string_number s =
     (case s of
        [] \<Rightarrow> None
      | c # r \<Rightarrow>
          if c = CHR ''-'' then (if r \<noteq> [] \<and> list_all is_digit r then Some (- digits_value r) else None)
          else if c = CHR ''+'' then (if r \<noteq> [] \<and> list_all is_digit r then Some (digits_value r) else None)
          else if list_all is_digit s then Some (digits_value s) else None)"

fun to_number :: "json \<Rightarrow> int option" where
  "to_number (JNum n) = Some n"
| "to_number (JStr s) = string_number s"

text \<open>\<^verbatim>\<open>isInt({ min: m })\<close>.\<close>

definition isInt :: "int \<Rightarrow> json \<Rightarrow> bool" where
  "isInt m v = (case to_number v of None \<Rightarrow> False | Some n \<Rightarrow> m \<le> n)"

text \<open>JavaScript's \<^verbatim>\<open>String(n)\<close> for an integer \<open>n\<close>.\<close>

function show_nat :: "nat \<Rightarrow> string" where
  "show_nat n =
     (if n < 10 then [''0123456789'' ! n]
      else show_nat (n div 10) @ [''0123456789'' ! (n mod 10)])"
  by pat_completeness auto
termination
  by (relation "measure id") auto

declare show_nat.simps [simp del]

definition show_int :: "int \<Rightarrow> string" where
  "show_int i = (if i < 0 then CHR ''-'' # show_nat (nat (- i)) else show_nat (nat i))"

text \<open>
  \<^verbatim>\<open>n + v\<close> for a number \<open>n\<close> read from the database: addition when \<open>v\<close> is a
  number, concatenation when it is a string.
\<close>

fun js_plus :: "int \<Rightarrow> json \<Rightarrow> json" where
  "js_plus n (JNum m) = JNum (n + m)"
| "js_plus n (JStr s) = JStr (show_int n @ s)"

text \<open>
  \<^verbatim>\<open>n < v\<close> (also written \<^verbatim>\<open>v > n\<close>) for a number \<open>n\<close> read from the database:
  \<open>v\<close> is converted to a number, and a comparison with \<^verbatim>\<open>NaN\<close> is false.
\<close>

definition js_less :: "int \<Rightarrow> json \<Rightarrow> bool" where
  "js_less n v = (case to_number v of None \<Rightarrow> False | Some m \<Rightarrow> n < m)"

section \<open>Persistence access layer\<close>

text \<open>
  Modelled from the spec: \<^verbatim>\<open>executeQuery\<close> (module \<^verbatim>\<open>config/database\<close>, absent)
  executes one parameterized statement against the relational store. Each statement the
  routes issue is modelled by what its SQL text does on the tables declared in
  \<^verbatim>\<open>initDatabase.js\<close>; it throws when it violates a UNIQUE or FOREIGN KEY constraint
  declared there, or when a string bound to an INT column is not a number (the server's
  default strict SQL mode), and then changes nothing. The \<^verbatim>\<open>users\<close> table is not
  modelled: an authenticated caller is a user that exists.
\<close>

datatype db_error = DuplicateEntry | ForeignKeyViolation | IncorrectValue

text \<open>The integer an INT column takes from a bound request value.\<close>

definition sql_int :: "json \<Rightarrow> db_error + int" where
  "sql_int v = (case to_number v of None \<Rightarrow> Inl IncorrectValue | Some n \<Rightarrow> Inr n)"

text \<open>
  Modelled from the spec: \<^verbatim>\<open>executeTransaction\<close> (absent \<^verbatim>\<open>config/database\<close>) runs
  its statements in order inside one transaction: either all of them apply, or the first
  failure rolls everything back and is thrown.
\<close>

fun executeTransaction :: "(db \<Rightarrow> db_error + db) list \<Rightarrow> db \<Rightarrow> db_error + db" where
  "executeTransaction [] d = Inr d"
| "executeTransaction (q # qs) d =
     (case q d of Inl e \<Rightarrow> Inl e | Inr d' \<Rightarrow> executeTransaction qs d')"

text \<open>\<^verbatim>\<open>INSERT INTO orders (...) VALUES (...)\<close>; \<^verbatim>\<open>order_number\<close> is UNIQUE.\<close>

definition insert_order :: "order_row \<Rightarrow> db \<Rightarrow> db_error + db" where
  "insert_order row d =
     (if o_order_number row \<in> set (map o_order_number (orders d)) then Inl DuplicateEntry
      else Inr (d\<lparr>orders := orders d @ [row\<lparr>o_id := next_order_id d\<rparr>],
                  next_order_id := next_order_id d + 1\<rparr>))"

text \<open>
  \<^verbatim>\<open>INSERT INTO order_items (...) VALUES (...)\<close>; \<^verbatim>\<open>order_id\<close> and \<^verbatim>\<open>product_id\<close>
  are foreign keys.
\<close>

definition insert_order_item :: "order_item_row \<Rightarrow> db \<Rightarrow> db_error + db" where
  "insert_order_item row d =
     (if oi_order_id row \<in> set (map o_id (orders d))
         \<and> oi_product_id row \<in> set (map p_id (products d))
      then Inr (d\<lparr>order_items := order_items d @ [row]\<rparr>)
      else Inl ForeignKeyViolation)"

text \<open>\<^verbatim>\<open>UPDATE products SET stock = stock + ? WHERE id = ?\<close>, bound to a quantity read
  from \<^verbatim>\<open>order_items\<close>.\<close>

definition add_stock :: "int \<Rightarrow> int \<Rightarrow> db \<Rightarrow> db" where
  "add_stock amount pid d =
     d\<lparr>products := map (\<lambda>p. if p_id p = pid then p\<lparr>p_stock := p_stock p + amount\<rparr> else p)
                        (products d)\<rparr>"

text \<open>\<^verbatim>\<open>UPDATE products SET stock = stock - ? WHERE id = ?\<close>, bound to a quantity of the
  request; the difference is rounded to the INT column.\<close>

definition subtract_stock :: "real \<Rightarrow> int \<Rightarrow> db \<Rightarrow> db" where
  "subtract_stock amount pid d =
     d\<lparr>products := map (\<lambda>p. if p_id p = pid
                               then p\<lparr>p_stock := int_column (real_of_int (p_stock p) - amount)\<rparr>
                               else p)
                        (products d)\<rparr>"

text \<open>\<^verbatim>\<open>UPDATE orders SET status = "cancelled" WHERE id = ?\<close>.\<close>

definition set_order_status :: "order_status \<Rightarrow> int \<Rightarrow> db \<Rightarrow> db" where
  "set_order_status st oid d =
     d\<lparr>orders := map (\<lambda>ord. if o_id ord = oid then ord\<lparr>o_status := st\<rparr> else ord) (orders d)\<rparr>"

section \<open>Order routes (\<^verbatim>\<open>src/routes/orders.js\<close>)\<close>

record shipping_address =
  firstName :: string
  lastName :: string
  address :: string
  city :: string
  state :: string
  zipCode :: string
  phone :: string
  email :: string

text \<open>
  One element of the \<^verbatim>\<open>items\<close> array of the request body. The validator checks only
  that \<^verbatim>\<open>items\<close> is a non-empty array: \<^verbatim>\<open>price\<close> and \<^verbatim>\<open>quantity\<close> are whatever
  JSON numbers the client sent, in currency units and in pieces.
\<close>

record item =
  product :: int
  name :: string
  price :: real
  quantity :: real

record order_request =
  shippingAddress :: shipping_address
  items :: "item list"
  deliveryMethod :: string
  sessionId :: "string option"

text \<open>One element of the handler's \<^verbatim>\<open>orderItems\<close> array.\<close>

record order_line =
  product_id :: int
  product_name :: string
  product_price :: real
  line_quantity :: real
  total_price :: real

text \<open>
  What the handler takes from outside the request and the database: the order number
  (\<^verbatim>\<open>generateOrderNumber\<close> reads the clock and the random generator) and the outcome
  of \<^verbatim>\<open>transporter.sendMail\<close> (an error, or the id of the message sent).
\<close>

record order_env =
  orderNumber :: string
  sendMail :: "string + string"

text \<open>
  \<^verbatim>\<open>sendOrderConfirmationEmail\<close> (\<^verbatim>\<open>config/emailConfig\<close>): the whole body is inside
  \<^verbatim>\<open>try\<close>; a delivery failure is logged and becomes the result \<^verbatim>\<open>false\<close>.
\<close>

definition sendOrderConfirmationEmail :: "(string + string) \<Rightarrow> bool" where
  "sendOrderConfirmationEmail outcome = (case outcome of Inr info \<Rightarrow> True | Inl err \<Rightarrow> False)"

text \<open>The express-validator chain of \<^verbatim>\<open>POST /orders\<close>.\<close>

definition order_request_valid :: "order_request \<Rightarrow> bool" where
  "order_request_valid req =
     (firstName (shippingAddress req) \<noteq> [] \<and> lastName (shippingAddress req) \<noteq> []
      \<and> address (shippingAddress req) \<noteq> [] \<and> city (shippingAddress req) \<noteq> []
      \<and> state (shippingAddress req) \<noteq> [] \<and> zipCode (shippingAddress req) \<noteq> []
      \<and> phone (shippingAddress req) \<noteq> [] \<and> deliveryMethod req \<noteq> []
      \<and> 1 \<le> length (items req))"

text \<open>The first loop of the handler: \<^verbatim>\<open>subtotal\<close> and \<^verbatim>\<open>orderItems\<close> are its
  accumulators.\<close>

fun collect_items :: "item list \<Rightarrow> real \<Rightarrow> order_line list \<Rightarrow> real \<times> order_line list" where
  "collect_items [] subtotal orderItems = (subtotal, orderItems)"
| "collect_items (it # rest) subtotal orderItems =
     (let itemTotal = price it * quantity it
      in collect_items rest (subtotal + itemTotal)
           (orderItems @ [\<lparr>product_id = product it, product_name = name it,
                            product_price = price it, line_quantity = quantity it,
                            total_price = itemTotal\<rparr>]))"

text \<open>
  The second loop: for each element of \<^verbatim>\<open>orderItems\<close> one INSERT into
  \<^verbatim>\<open>order_items\<close> and one \<^verbatim>\<open>UPDATE products SET stock = stock - ?\<close>, each its own
  \<^verbatim>\<open>executeQuery\<close>. The numbers bound to the INSERT are rounded to their columns. A
  throwing statement ends the loop; what was written before stays.
\<close>

fun write_order_items :: "int \<Rightarrow> order_line list \<Rightarrow> db \<Rightarrow> db_error option \<times> db" where
  "write_order_items orderId [] d = (None, d)"
| "write_order_items orderId (line # rest) d =
     (case insert_order_item
             \<lparr>oi_order_id = orderId, oi_product_id = product_id line,
              oi_product_name = product_name line,
              oi_product_price = decimal_column (product_price line),
              oi_quantity = int_column (line_quantity line),
              oi_total_price = decimal_column (total_price line)\<rparr> d of
        Inl e \<Rightarrow> (Some e, d)
      | Inr d1 \<Rightarrow> write_order_items orderId rest (subtract_stock (line_quantity line) (product_id line) d1))"

text \<open>
  \<^verbatim>\<open>router.post('/')\<close>: create an order for the authenticated user \<open>userId\<close>. The
  amounts bound to the header INSERT are rounded to their DECIMAL(10,2) columns; the reply
  carries \<^verbatim>\<open>parseFloat(totalAmount.toFixed(2))\<close>.
\<close>

definition createOrder :: "int \<Rightarrow> order_request \<Rightarrow> order_env \<Rightarrow> db \<Rightarrow> response \<times> db" where
  "createOrder userId req env d =
     (if \<not> order_request_valid req then (Response 400 ''Validation failed'' ValidationErrors, d)
      else
        let (subtotal, orderItems) = collect_items (items req) 0 [];
            shippingCost = 0;
            taxAmount = 0;
            totalAmount = subtotal + shippingCost + taxAmount;
            orderInsertQuery = insert_order
              \<lparr>o_id = 0, o_order_number = orderNumber env, o_user_id = userId,
               o_status = Pending, o_subtotal = decimal_column subtotal,
               o_shipping_cost = decimal_column shippingCost,
               o_tax_amount = decimal_column taxAmount,
               o_total_amount = decimal_column totalAmount,
               o_shipping_address = address (shippingAddress req),
               o_shipping_city = city (shippingAddress req),
               o_shipping_state = state (shippingAddress req),
               o_shipping_zip_code = zipCode (shippingAddress req),
               o_shipping_method = deliveryMethod req\<rparr>
        in (case executeTransaction [orderInsertQuery] d of
              Inl e \<Rightarrow> (Response 500 ''Failed to create order'' NoPayload, d)
            | Inr d1 \<Rightarrow>
                (let orderId = next_order_id d;
                     (failure, d2) = write_order_items orderId orderItems d1
                 in (case failure of
                       Some e \<Rightarrow> (Response 500 ''Failed to create order'' NoPayload, d2)
                     | None \<Rightarrow>
                         (let sent = sendOrderConfirmationEmail (sendMail env)
                          in (Response 201 ''Order created successfully''
                                (OrderInfo orderId (orderNumber env) (toFixed2 totalAmount)), d2))))))"

text \<open>\<^verbatim>\<open>router.post('/:id/cancel')\<close>.\<close>

fun restore_stock :: "order_item_row list \<Rightarrow> db \<Rightarrow> db" where
  "restore_stock [] d = d"
| "restore_stock (it # rest) d = restore_stock rest (add_stock (oi_quantity it) (oi_product_id it) d)"

definition cancelOrder :: "int \<Rightarrow> int \<Rightarrow> db \<Rightarrow> response \<times> db" where
  "cancelOrder userId orderId d =
     (case filter (\<lambda>ord. o_id ord = orderId \<and> o_user_id ord = userId) (orders d) of
        [] \<Rightarrow> (Response 404 ''Order not found'' NoPayload, d)
      | ord # _ \<Rightarrow>
          if o_status ord = Cancelled
            then (Response 400 ''Order is already cancelled'' NoPayload, d)
          else if o_status ord = Delivered
            then (Response 400 ''Cannot cancel delivered order'' NoPayload, d)
          else
            let d1 = set_order_status Cancelled orderId d;
                orderItems = filter (\<lambda>it. oi_order_id it = orderId) (order_items d1)
            in (Response 200 ''Order cancelled successfully'' NoPayload,
                restore_stock orderItems d1))"

section \<open>Cart routes (\<^verbatim>\<open>src/routes/cart.js\<close>)\<close>

text \<open>\<^verbatim>\<open>INSERT INTO cart_sessions (session_id, user_id)\<close>; \<^verbatim>\<open>session_id\<close> is UNIQUE.\<close>

definition insert_cart_session :: "string \<Rightarrow> int option \<Rightarrow> db \<Rightarrow> db_error + db" where
  "insert_cart_session sid uid d =
     (if sid \<in> set (map cs_session_id (cart_sessions d)) then Inl DuplicateEntry
      else Inr (d\<lparr>cart_sessions := cart_sessions d @ [\<lparr>cs_session_id = sid, cs_user_id = uid\<rparr>]\<rparr>))"

text \<open>
  \<^verbatim>\<open>INSERT INTO cart_items (session_id, product_id, quantity)\<close>; \<^verbatim>\<open>product_id\<close> is
  a foreign key and \<^verbatim>\<open>(session_id, product_id)\<close> is UNIQUE.
\<close>

definition insert_cart_item :: "string \<Rightarrow> int \<Rightarrow> int \<Rightarrow> db \<Rightarrow> db_error + db" where
  "insert_cart_item sid pid qty d =
     (if pid \<notin> set (map p_id (products d)) then Inl ForeignKeyViolation
      else if (sid, pid) \<in> set (map (\<lambda>ci. (ci_session_id ci, ci_product_id ci)) (cart_items d))
        then Inl DuplicateEntry
      else Inr (d\<lparr>cart_items := cart_items d @
                    [\<lparr>ci_id = next_cart_item_id d, ci_session_id = sid,
                      ci_product_id = pid, ci_quantity = qty\<rparr>],
                  next_cart_item_id := next_cart_item_id d + 1\<rparr>))"

text \<open>\<^verbatim>\<open>UPDATE cart_items SET quantity = ? WHERE id = ?\<close>.\<close>

definition update_cart_quantity :: "int \<Rightarrow> int \<Rightarrow> db \<Rightarrow> db" where
  "update_cart_quantity qty iid d =
     d\<lparr>cart_items := map (\<lambda>ci. if ci_id ci = iid then ci\<lparr>ci_quantity := qty\<rparr> else ci)
                          (cart_items d)\<rparr>"

text \<open>\<^verbatim>\<open>DELETE FROM cart_items WHERE id = ?\<close>.\<close>

definition delete_cart_item :: "int \<Rightarrow> db \<Rightarrow> db" where
  "delete_cart_item iid d = d\<lparr>cart_items := filter (\<lambda>ci. ci_id ci \<noteq> iid) (cart_items d)\<rparr>"

text \<open>\<^verbatim>\<open>DELETE FROM cart_sessions WHERE session_id = ?\<close>.\<close>

definition delete_cart_session :: "string \<Rightarrow> db \<Rightarrow> db" where
  "delete_cart_session sid d =
     d\<lparr>cart_sessions := filter (\<lambda>s. cs_session_id s \<noteq> sid) (cart_sessions d)\<rparr>"

text \<open>\<^verbatim>\<open>DELETE FROM cart_items WHERE session_id = ?\<close>.\<close>

definition delete_session_items :: "string \<Rightarrow> db \<Rightarrow> db" where
  "delete_session_items sid d =
     d\<lparr>cart_items := filter (\<lambda>ci. ci_session_id ci \<noteq> sid) (cart_items d)\<rparr>"

text \<open>\<^verbatim>\<open>SELECT session_id FROM cart_sessions WHERE user_id = ?\<close>.\<close>

definition sessions_of_user :: "int \<Rightarrow> db \<Rightarrow> cart_session list" where
  "sessions_of_user uid d = filter (\<lambda>s. cs_user_id s = Some uid) (cart_sessions d)"

text \<open>\<^verbatim>\<open>SELECT id, quantity FROM cart_items WHERE session_id = ? AND product_id = ?\<close>.\<close>

definition lines_of :: "string \<Rightarrow> int \<Rightarrow> db \<Rightarrow> cart_item list" where
  "lines_of sid pid d =
     filter (\<lambda>ci. ci_session_id ci = sid \<and> ci_product_id ci = pid) (cart_items d)"

text \<open>
  \<^verbatim>\<open>getOrCreateCartSession\<close>. \<open>uuid\<close> is the token \<^verbatim>\<open>uuidv4()\<close> returns if it is
  called. The test \<^verbatim>\<open>if (userId)\<close> is JavaScript truthiness: an absent id and the
  id 0 both take the guest branch.
\<close>

definition getOrCreateCartSession :: "int option \<Rightarrow> string \<Rightarrow> db \<Rightarrow> db_error + (string \<times> db)" where
  "getOrCreateCartSession userId uuid d =
     (if userId \<noteq> None \<and> userId \<noteq> Some 0 then
        (case sessions_of_user (the userId) d of
           s # _ \<Rightarrow> Inr (cs_session_id s, d)
         | [] \<Rightarrow>
             (case insert_cart_session uuid userId d of
                Inl e \<Rightarrow> Inl e
              | Inr d' \<Rightarrow> Inr (uuid, d')))
      else
        (case insert_cart_session uuid None d of
           Inl e \<Rightarrow> Inl e
         | Inr d' \<Rightarrow> Inr (uuid, d')))"

text \<open>
  \<^verbatim>\<open>router.post('/add')\<close>. \<open>user\<close> is \<^verbatim>\<open>req.user?.id\<close> as \<^verbatim>\<open>optionalAuth\<close>
  leaves it; the body carries \<^verbatim>\<open>productId\<close> and \<^verbatim>\<open>quantity\<close> and nothing else is
  read from the request. \<^verbatim>\<open>productId\<close> is only ever bound to SQL parameters, where a
  numeric string is the number it denotes, and is represented by that number;
  \<^verbatim>\<open>quantity\<close> is also used in JavaScript comparisons and in \<^verbatim>\<open>+\<close> and is kept as the
  JSON value.
\<close>

definition addItem :: "int option \<Rightarrow> int \<Rightarrow> json \<Rightarrow> string \<Rightarrow> db \<Rightarrow> response \<times> db" where
  "addItem user productId qty uuid d =
     (if \<not> (1 \<le> productId \<and> isInt 1 qty)
        then (Response 400 ''Validation failed'' ValidationErrors, d)
      else
        (case filter (\<lambda>p. p_id p = productId \<and> p_status p = Active) (products d) of
           [] \<Rightarrow> (Response 404 ''Product not found'' NoPayload, d)
         | prd # _ \<Rightarrow>
             if js_less (p_stock prd) qty
               then (Response 400 ''Only N items available in stock'' (InStock (p_stock prd)), d)
             else
               (case getOrCreateCartSession user uuid d of
                  Inl e \<Rightarrow> (Response 500 ''Failed to add item to cart'' NoPayload, d)
                | Inr (sid, d1) \<Rightarrow>
                    (case lines_of sid productId d1 of
                       existing # _ \<Rightarrow>
                         (let newQuantity = js_plus (ci_quantity existing) qty
                          in if js_less (p_stock prd) newQuantity
                               then (Response 400 ''Cannot add more items. Only N available in stock''
                                       (InStock (p_stock prd)), d1)
                             else
                               (case sql_int newQuantity of
                                  Inl e \<Rightarrow> (Response 500 ''Failed to add item to cart'' NoPayload, d1)
                                | Inr n \<Rightarrow>
                                    (Response 200 ''Item added to cart successfully''
                                       (SessionId (if user \<noteq> None then None else Some sid)),
                                     update_cart_quantity n (ci_id existing) d1)))
                     | [] \<Rightarrow>
                         (case sql_int qty of
                            Inl e \<Rightarrow> (Response 500 ''Failed to add item to cart'' NoPayload, d1)
                          | Inr n \<Rightarrow>
                              (case insert_cart_item sid productId n d1 of
                                 Inl e \<Rightarrow> (Response 500 ''Failed to add item to cart'' NoPayload, d1)
                               | Inr d2 \<Rightarrow>
                                   (Response 200 ''Item added to cart successfully''
                                      (SessionId (if user \<noteq> None then None else Some sid)), d2)))))))"

text \<open>
  The ownership test shared by the update and remove routes:
  \<^verbatim>\<open>if (req.user) { SELECT id FROM cart_sessions WHERE session_id = ? AND user_id = ? }\<close>.
  It yields \<open>True\<close> when the handler goes on and \<open>False\<close> when it answers 403.
\<close>

definition owns_cart_item :: "int option \<Rightarrow> string \<Rightarrow> db \<Rightarrow> bool" where
  "owns_cart_item user sid d =
     (case user of
        None \<Rightarrow> True
      | Some uid \<Rightarrow>
          filter (\<lambda>s. cs_session_id s = sid \<and> cs_user_id s = Some uid) (cart_sessions d) \<noteq> [])"

text \<open>
  \<^verbatim>\<open>router.put('/update/:itemId')\<close>. The SELECT joins the line with its product. The
  test \<^verbatim>\<open>quantity === 0\<close> is strict equality: only the number 0 passes it.
\<close>

definition updateItem :: "int option \<Rightarrow> int \<Rightarrow> json \<Rightarrow> db \<Rightarrow> response \<times> db" where
  "updateItem user itemId qty d =
     (if \<not> isInt 0 qty then (Response 400 ''Validation failed'' ValidationErrors, d)
      else
        (case concat (map (\<lambda>ci. map (\<lambda>p. (ci, p)) (filter (\<lambda>p. p_id p = ci_product_id ci) (products d)))
                          (filter (\<lambda>ci. ci_id ci = itemId) (cart_items d))) of
           [] \<Rightarrow> (Response 404 ''Cart item not found'' NoPayload, d)
         | (cartItem, prd) # _ \<Rightarrow>
             if \<not> owns_cart_item user (ci_session_id cartItem) d
               then (Response 403 ''Access denied'' NoPayload, d)
             else if qty = JNum 0
               then (Response 200 ''Item removed from cart'' NoPayload, delete_cart_item itemId d)
             else if js_less (p_stock prd) qty
               then (Response 400 ''Only N items available in stock'' (InStock (p_stock prd)), d)
             else
               (case sql_int qty of
                  Inl e \<Rightarrow> (Response 500 ''Failed to update cart'' NoPayload, d)
                | Inr n \<Rightarrow>
                    (Response 200 ''Cart updated successfully'' NoPayload,
                     update_cart_quantity n itemId d))))"

text \<open>\<^verbatim>\<open>router.delete('/remove/:itemId')\<close>.\<close>

definition removeItem :: "int option \<Rightarrow> int \<Rightarrow> db \<Rightarrow> response \<times> db" where
  "removeItem user itemId d =
     (case filter (\<lambda>ci. ci_id ci = itemId) (cart_items d) of
        [] \<Rightarrow> (Response 404 ''Cart item not found'' NoPayload, d)
      | cartItem # _ \<Rightarrow>
          if \<not> owns_cart_item user (ci_session_id cartItem) d
            then (Response 403 ''Access denied'' NoPayload, d)
          else (Response 200 ''Item removed from cart'' NoPayload, delete_cart_item itemId d))"

text \<open>
  The merge loop of \<^verbatim>\<open>router.post('/merge')\<close> over the guest lines read before it
  starts; each line is added to the line of the same product in the user's session, or
  inserted there.
\<close>

fun merge_items :: "string \<Rightarrow> cart_item list \<Rightarrow> db \<Rightarrow> db_error option \<times> db" where
  "merge_items userSessionId [] d = (None, d)"
| "merge_items userSessionId (it # rest) d =
     (case lines_of userSessionId (ci_product_id it) d of
        existing # _ \<Rightarrow>
          merge_items userSessionId rest
            (update_cart_quantity (ci_quantity existing + ci_quantity it) (ci_id existing) d)
      | [] \<Rightarrow>
          (case insert_cart_item userSessionId (ci_product_id it) (ci_quantity it) d of
             Inl e \<Rightarrow> (Some e, d)
           | Inr d' \<Rightarrow> merge_items userSessionId rest d'))"

text \<open>
  \<^verbatim>\<open>router.post('/merge')\<close> for the authenticated user \<open>userId\<close>; \<open>guest\<close> is
  \<^verbatim>\<open>req.body.sessionId\<close>, and \<^verbatim>\<open>!sessionId\<close> holds for an absent or empty one.
\<close>

definition mergeCarts :: "int \<Rightarrow> string option \<Rightarrow> string \<Rightarrow> db \<Rightarrow> response \<times> db" where
  "mergeCarts userId guest uuid d =
     (case guest of
        None \<Rightarrow> (Response 400 ''Session ID is required'' NoPayload, d)
      | Some sid \<Rightarrow>
          if sid = [] then (Response 400 ''Session ID is required'' NoPayload, d)
          else
            (let (created, d1) =
                   (case sessions_of_user userId d of
                      [] \<Rightarrow>
                        (case insert_cart_session uuid (Some userId) d of
                           Inl e \<Rightarrow> (Inl e, d)
                         | Inr d' \<Rightarrow> (Inr uuid, d'))
                    | s # _ \<Rightarrow> (Inr (cs_session_id s), d))
             in (case created of
                   Inl e \<Rightarrow> (Response 500 ''Failed to merge cart'' NoPayload, d1)
                 | Inr userSessionId \<Rightarrow>
                     (let guestItems = filter (\<lambda>ci. ci_session_id ci = sid) (cart_items d1);
                          (failure, d2) = merge_items userSessionId guestItems d1
                      in (case failure of
                            Some e \<Rightarrow> (Response 500 ''Failed to merge cart'' NoPayload, d2)
                          | None \<Rightarrow>
                              (Response 200 ''Cart merged successfully'' NoPayload,
                               delete_session_items sid (delete_cart_session sid d2)))))))"

section \<open>Functions used to state the properties\<close>

text \<open>
  The row of \<^verbatim>\<open>order_items\<close> that order \<open>orderId\<close> gets for a submitted item, the
  element of \<^verbatim>\<open>orderItems\<close> built from an item, the row written for such an element,
  and the header row as the INSERT stores it (its \<open>o_id\<close> is assigned by the table).
\<close>

definition order_item_of :: "int \<Rightarrow> item \<Rightarrow> order_item_row" where
  "order_item_of orderId it =
     \<lparr>oi_order_id = orderId, oi_product_id = product it, oi_product_name = name it,
      oi_product_price = decimal_column (price it), oi_quantity = int_column (quantity it),
      oi_total_price = decimal_column (price it * quantity it)\<rparr>"

definition line_of_item :: "item \<Rightarrow> order_line" where
  "line_of_item it =
     \<lparr>product_id = product it, product_name = name it, product_price = price it,
      line_quantity = quantity it, total_price = price it * quantity it\<rparr>"

definition row_of_line :: "int \<Rightarrow> order_line \<Rightarrow> order_item_row" where
  "row_of_line orderId line =
     \<lparr>oi_order_id = orderId, oi_product_id = product_id line,
      oi_product_name = product_name line,
      oi_product_price = decimal_column (product_price line),
      oi_quantity = int_column (line_quantity line),
      oi_total_price = decimal_column (total_price line)\<rparr>"

definition order_header :: "int \<Rightarrow> order_request \<Rightarrow> order_env \<Rightarrow> order_row" where
  "order_header userId req env =
     \<lparr>o_id = 0, o_order_number = orderNumber env, o_user_id = userId, o_status = Pending,
      o_subtotal = decimal_column (\<Sum>it\<leftarrow>items req. price it * quantity it),
      o_shipping_cost = 0, o_tax_amount = 0,
      o_total_amount = decimal_column (\<Sum>it\<leftarrow>items req. price it * quantity it),
      o_shipping_address = address (shippingAddress req),
      o_shipping_city = city (shippingAddress req),
      o_shipping_state = state (shippingAddress req),
      o_shipping_zip_code = zipCode (shippingAddress req),
      o_shipping_method = deliveryMethod req\<rparr>"

text \<open>
  A session token is unused when no row of \<^verbatim>\<open>cart_sessions\<close> or \<^verbatim>\<open>cart_items\<close>
  carries it (what a fresh \<^verbatim>\<open>uuidv4()\<close> is taken to be); \<open>guest_added\<close> is the
  database after a guest session \<open>u\<close> with one line has been added to it.
\<close>

definition session_unused :: "string \<Rightarrow> db \<Rightarrow> bool" where
  "session_unused u d =
     (u \<notin> set (map cs_session_id (cart_sessions d)) \<and> u \<notin> set (map ci_session_id (cart_items d)))"

definition guest_added :: "string \<Rightarrow> int \<Rightarrow> int \<Rightarrow> db \<Rightarrow> db" where
  "guest_added u pid qty d =
     d\<lparr>cart_sessions := cart_sessions d @ [\<lparr>cs_session_id = u, cs_user_id = None\<rparr>],
       cart_items := cart_items d @
         [\<lparr>ci_id = next_cart_item_id d, ci_session_id = u, ci_product_id = pid, ci_quantity = qty\<rparr>],
       next_cart_item_id := next_cart_item_id d + 1\<rparr>"

text \<open>
  At most one line per (session, product) pair, and the line with a given id, session,
  product and quantity.
\<close>

definition cart_unique :: "db \<Rightarrow> bool" where
  "cart_unique d = distinct (map (\<lambda>ci. (ci_session_id ci, ci_product_id ci)) (cart_items d))"

definition cart_line :: "int \<Rightarrow> string \<Rightarrow> int \<Rightarrow> int \<Rightarrow> cart_item" where
  "cart_line n sid pid qty =
     \<lparr>ci_id = n, ci_session_id = sid, ci_product_id = pid, ci_quantity = qty\<rparr>"

section \<open>Example states\<close>

text \<open>
  A shop with one product (stock 10, price 5.00), where user 7 has four units of it in
  the cart session \<^verbatim>\<open>s1\<close>; a checkout request for \<open>qty\<close> units; the environment of
  a request during which the mail transport is down; and the shop after that checkout.
\<close>

definition shop :: db where
  "shop =
     \<lparr>products = [\<lparr>p_id = 1, p_name = ''Olive oil'', p_price = 500, p_stock = 10, p_status = Active\<rparr>],
      cart_sessions = [\<lparr>cs_session_id = ''s1'', cs_user_id = Some 7\<rparr>],
      cart_items = [\<lparr>ci_id = 1, ci_session_id = ''s1'', ci_product_id = 1, ci_quantity = 4\<rparr>],
      orders = [], order_items = [], next_cart_item_id = 2, next_order_id = 1\<rparr>"

definition home :: shipping_address where
  "home = \<lparr>firstName = ''A'', lastName = ''B'', address = ''1 Main St'', city = ''Pune'',
            state = ''MH'', zipCode = ''411001'', phone = ''555'', email = ''a@b.c''\<rparr>"

definition checkout :: "int \<Rightarrow> order_request" where
  "checkout qty =
     \<lparr>shippingAddress = home,
      items = [\<lparr>product = 1, name = ''Olive oil'', price = 5, quantity = real_of_int qty\<rparr>],
      deliveryMethod = ''express'', sessionId = Some ''s1''\<rparr>"

definition mail_down :: order_env where
  "mail_down = \<lparr>orderNumber = ''ORD-1-001'', sendMail = Inl ''ECONNREFUSED''\<rparr>"

definition placed :: "int \<Rightarrow> order_row" where
  "placed qty =
     \<lparr>o_id = 1, o_order_number = ''ORD-1-001'', o_user_id = 7, o_status = Pending,
      o_subtotal = 500 * qty, o_shipping_cost = 0, o_tax_amount = 0, o_total_amount = 500 * qty,
      o_shipping_address = ''1 Main St'', o_shipping_city = ''Pune'', o_shipping_state = ''MH'',
      o_shipping_zip_code = ''411001'', o_shipping_method = ''express''\<rparr>"

definition shop_after :: "int \<Rightarrow> db" where
  "shop_after qty =
     shop\<lparr>products := [\<lparr>p_id = 1, p_name = ''Olive oil'', p_price = 500, p_stock = 10 - qty, p_status = Active\<rparr>],
          orders := [placed qty],
          order_items := [\<lparr>oi_order_id = 1, oi_product_id = 1, oi_product_name = ''Olive oil'',
                           oi_product_price = 500, oi_quantity = qty, oi_total_price = 500 * qty\<rparr>],
          next_order_id := 2\<rparr>"

text \<open>The shop after the order placed for four units has been cancelled.\<close>

definition shop_cancelled :: db where
  "shop_cancelled = (shop_after 4)
     \<lparr>products := [\<lparr>p_id = 1, p_name = ''Olive oil'', p_price = 500, p_stock = 10, p_status = Active\<rparr>],
      orders := [(placed 4)\<lparr>o_status := Cancelled\<rparr>]\<rparr>"

text \<open>The shop after the order placed for four units has been delivered.\<close>

definition shop_delivered :: db where
  "shop_delivered = (shop_after 4)\<lparr>orders := [(placed 4)\<lparr>o_status := Delivered\<rparr>]\<rparr>"

text \<open>
  A checkout of three pieces at the price 0.004, and the shop after it: the line is stored
  with price 0.00, quantity 3 and total 0.01.
\<close>

definition checkout_subcent :: order_request where
  "checkout_subcent =
     \<lparr>shippingAddress = home,
      items = [\<lparr>product = 1, name = ''Olive oil'', price = 4 / 1000, quantity = 3\<rparr>],
      deliveryMethod = ''standard'', sessionId = None\<rparr>"

definition shop_after_subcent :: db where
  "shop_after_subcent =
     shop\<lparr>products := [\<lparr>p_id = 1, p_name = ''Olive oil'', p_price = 500, p_stock = 7, p_status = Active\<rparr>],
          orders := [(placed 0)\<lparr>o_subtotal := 1, o_total_amount := 1, o_shipping_method := ''standard''\<rparr>],
          order_items := [\<lparr>oi_order_id = 1, oi_product_id = 1, oi_product_name = ''Olive oil'',
                           oi_product_price = 0, oi_quantity = 3, oi_total_price = 1\<rparr>],
          next_order_id := 2\<rparr>"

text \<open>A checkout whose second item names a product that does not exist.\<close>

definition checkout_unknown :: order_request where
  "checkout_unknown =
     \<lparr>shippingAddress = home,
      items = [\<lparr>product = 1, name = ''Olive oil'', price = 5, quantity = 4\<rparr>,
               \<lparr>product = 99, name = ''Ghost'', price = 1, quantity = 1\<rparr>],
      deliveryMethod = ''standard'', sessionId = None\<rparr>"

text \<open>
  The product of the shop; the shop after the guest session \<^verbatim>\<open>g1\<close> holding six units
  has been merged into the cart of user 7; and the shop with a session \<^verbatim>\<open>u8\<close> of user
  8 holding the lines \<open>own\<close>.
\<close>

definition olive :: product where
  "olive = \<lparr>p_id = 1, p_name = ''Olive oil'', p_price = 500, p_stock = 10, p_status = Active\<rparr>"

definition merged_shop :: db where
  "merged_shop =
     shop\<lparr>cart_items := [\<lparr>ci_id = 1, ci_session_id = ''s1'', ci_product_id = 1, ci_quantity = 10\<rparr>],
          next_cart_item_id := 3\<rparr>"

definition cart8 :: "cart_item list \<Rightarrow> db" where
  "cart8 own =
     shop\<lparr>cart_sessions := [\<lparr>cs_session_id = ''s1'', cs_user_id = Some 7\<rparr>,
                             \<lparr>cs_session_id = ''u8'', cs_user_id = Some 8\<rparr>],
          cart_items := \<lparr>ci_id = 1, ci_session_id = ''s1'', ci_product_id = 1, ci_quantity = 4\<rparr> # own,
          next_cart_item_id := 3\<rparr>"

section \<open>Order creation\<close>

subsection \<open>Rounding\<close>

lemma round_half_away_of_int [simp]: "round_half_away (real_of_int k) = k"
proof -
  have "\<lfloor>real_of_int k + 1 / 2\<rfloor> = k"
    by (rule floor_unique) simp_all
  moreover have "\<lfloor>- real_of_int k + 1 / 2\<rfloor> = - k"
    by (rule floor_unique) simp_all
  ultimately show ?thesis by (simp add: round_half_away_def)
qed

lemma round_half_away_0 [simp]: "round_half_away 0 = 0"
  by (simp add: round_half_away_def)

lemma decimal_column_0 [simp]: "decimal_column 0 = 0"
  by (simp add: decimal_column_def)

subsection \<open>The item loop, the write loop and the handler\<close>

lemma collect_items_eq:
  "collect_items its s acc =
     (s + (\<Sum>it\<leftarrow>its. price it * quantity it), acc @ map line_of_item its)"
  by (induction its arbitrary: s acc) (simp_all add: Let_def line_of_item_def algebra_simps)

lemma row_of_line_of_item: "row_of_line oid (line_of_item it) = order_item_of oid it"
  by (simp add: row_of_line_def line_of_item_def order_item_of_def)

lemma subtract_stock_fields [simp]:
  "cart_sessions (subtract_stock a p d) = cart_sessions d"
  "cart_items (subtract_stock a p d) = cart_items d"
  "orders (subtract_stock a p d) = orders d"
  "order_items (subtract_stock a p d) = order_items d"
  "next_cart_item_id (subtract_stock a p d) = next_cart_item_id d"
  "next_order_id (subtract_stock a p d) = next_order_id d"
  "map p_id (products (subtract_stock a p d)) = map p_id (products d)"
  by (simp_all add: subtract_stock_def comp_def)

lemma insert_order_item_Inr:
  "insert_order_item row d = Inr d' \<Longrightarrow> d' = d\<lparr>order_items := order_items d @ [row]\<rparr>"
  by (simp add: insert_order_item_def split: if_splits)

lemma write_order_items_frame:
  "write_order_items oid lns d = (f, d') \<Longrightarrow>
     cart_sessions d' = cart_sessions d \<and> cart_items d' = cart_items d \<and> orders d' = orders d
     \<and> next_cart_item_id d' = next_cart_item_id d \<and> next_order_id d' = next_order_id d"
proof (induction lns arbitrary: d)
  case Nil
  then show ?case by simp
next
  case (Cons line lns)
  show ?case
  proof (cases "insert_order_item (row_of_line oid line) d")
    case (Inl e)
    with Cons.prems show ?thesis by (simp add: row_of_line_def)
  next
    case (Inr d1)
    with Cons.prems
    have "write_order_items oid lns (subtract_stock (line_quantity line) (product_id line) d1) = (f, d')"
      by (simp add: row_of_line_def)
    from Cons.IH [OF this] insert_order_item_Inr [OF Inr] show ?thesis by simp
  qed
qed

lemma write_order_items_lines:
  "write_order_items oid lns d = (f, d') \<Longrightarrow>
     \<exists>k \<le> length lns. order_items d' = order_items d @ map (row_of_line oid) (take k lns)
        \<and> (f = None \<longrightarrow> k = length lns)"
proof (induction lns arbitrary: d)
  case Nil
  then show ?case by simp
next
  case (Cons line lns)
  show ?case
  proof (cases "insert_order_item (row_of_line oid line) d")
    case (Inl e)
    with Cons.prems have "d' = d" "f = Some e" by (simp_all add: row_of_line_def)
    then show ?thesis by (intro exI [of _ 0]) simp
  next
    case (Inr d1)
    let ?d2 = "subtract_stock (line_quantity line) (product_id line) d1"
    from Inr Cons.prems have "write_order_items oid lns ?d2 = (f, d')"
      by (simp add: row_of_line_def)
    from Cons.IH [OF this] obtain k where k: "k \<le> length lns"
      "order_items d' = order_items ?d2 @ map (row_of_line oid) (take k lns)"
      "f = None \<longrightarrow> k = length lns" by blast
    from insert_order_item_Inr [OF Inr] k show ?thesis
      by (intro exI [of _ "Suc k"]) simp
  qed
qed

lemma write_order_items_succeeds:
  "oid \<in> set (map o_id (orders d)) \<Longrightarrow> \<forall>line \<in> set lns. product_id line \<in> set (map p_id (products d))
     \<Longrightarrow> fst (write_order_items oid lns d) = None"
proof (induction lns arbitrary: d)
  case Nil
  then show ?case by simp
next
  case (Cons line lns)
  let ?d1 = "d\<lparr>order_items := order_items d @ [row_of_line oid line]\<rparr>"
  have ins: "insert_order_item (row_of_line oid line) d = Inr ?d1"
    using Cons.prems by (simp add: insert_order_item_def row_of_line_def)
  have "fst (write_order_items oid lns (subtract_stock (line_quantity line) (product_id line) ?d1)) = None"
    using Cons.prems by (intro Cons.IH) simp_all
  with ins show ?case by (simp add: row_of_line_def)
qed

lemma createOrder_invalid:
  "\<not> order_request_valid req \<Longrightarrow>
     createOrder userId req env d = (Response 400 ''Validation failed'' ValidationErrors, d)"
  by (simp add: createOrder_def)

lemma createOrder_valid:
  "order_request_valid req \<Longrightarrow>
     createOrder userId req env d =
       (case insert_order (order_header userId req env) d of
          Inl e \<Rightarrow> (Response 500 ''Failed to create order'' NoPayload, d)
        | Inr d1 \<Rightarrow>
            (case write_order_items (next_order_id d) (map line_of_item (items req)) d1 of
               (Some e, d2) \<Rightarrow> (Response 500 ''Failed to create order'' NoPayload, d2)
             | (None, d2) \<Rightarrow>
                 (Response 201 ''Order created successfully''
                    (OrderInfo (next_order_id d) (orderNumber env)
                       (toFixed2 (\<Sum>it\<leftarrow>items req. price it * quantity it))), d2)))"
  by (simp add: createOrder_def collect_items_eq order_header_def Let_def
           split: sum.splits prod.splits option.splits)

lemma insert_order_Inr:
  "insert_order row d = Inr d' \<Longrightarrow>
     d' = d\<lparr>orders := orders d @ [row\<lparr>o_id := next_order_id d\<rparr>],
            next_order_id := next_order_id d + 1\<rparr>"
  by (simp add: insert_order_def split: if_splits)

text \<open>What a call leaves in the two order tables, whatever its reply.\<close>

lemma createOrder_writes:
  assumes "createOrder userId req env d = (r, d')"
  shows "\<exists>new k. orders d' = orders d @ new \<and> k \<le> length (items req)
           \<and> order_items d' = order_items d @ map (order_item_of (next_order_id d)) (take k (items req))
           \<and> (new = [] \<or> new = [(order_header userId req env)\<lparr>o_id := next_order_id d\<rparr>])
           \<and> (status r = 201 \<longrightarrow> new \<noteq> [] \<and> k = length (items req))
           \<and> cart_sessions d' = cart_sessions d \<and> cart_items d' = cart_items d"
proof (cases "order_request_valid req")
  case False
  with assms have "d' = d" "status r = 400" by (auto simp: createOrder_invalid)
  then show ?thesis by (intro exI [of _ "[]"] exI [of _ 0]) simp
next
  case valid: True
  show ?thesis
  proof (cases "insert_order (order_header userId req env) d")
    case (Inl e)
    with valid assms have "d' = d" "status r = 500" by (auto simp: createOrder_valid)
    then show ?thesis by (intro exI [of _ "[]"] exI [of _ 0]) simp
  next
    case (Inr d1)
    note d1 = insert_order_Inr [OF Inr]
    obtain f d2 where w: "write_order_items (next_order_id d) (map line_of_item (items req)) d1 = (f, d2)"
      by (cases "write_order_items (next_order_id d) (map line_of_item (items req)) d1")
    from valid assms Inr w have res: "d' = d2" "status r = 201 \<longrightarrow> f = None"
      by (auto simp: createOrder_valid split: option.splits)
    from write_order_items_lines [OF w] obtain k where k: "k \<le> length (items req)"
      "order_items d2 = order_items d1 @ map (row_of_line (next_order_id d)) (take k (map line_of_item (items req)))"
      "f = None \<longrightarrow> k = length (items req)" by auto
    have "map (row_of_line (next_order_id d)) (take k (map line_of_item (items req)))
            = map (order_item_of (next_order_id d)) (take k (items req))"
      by (simp add: take_map row_of_line_of_item comp_def)
    with k write_order_items_frame [OF w] d1 res show ?thesis
      by (intro exI [of _ "[(order_header userId req env)\<lparr>o_id := next_order_id d\<rparr>]"] exI [of _ k]) simp
  qed
qed

lemma createOrder_shop:
  "createOrder 7 (checkout 4) mail_down shop =
     (Response 201 ''Order created successfully'' (OrderInfo 1 ''ORD-1-001'' 2000), shop_after 4)"
  "createOrder 7 (checkout 12) mail_down shop =
     (Response 201 ''Order created successfully'' (OrderInfo 1 ''ORD-1-001'' 6000), shop_after 12)"
  by (simp_all add: createOrder_def order_request_valid_def checkout_def home_def shop_def
        mail_down_def insert_order_def insert_order_item_def subtract_stock_def shop_after_def
        placed_def sendOrderConfirmationEmail_def Let_def decimal_column_def int_column_def
        toFixed2_def round_half_away_def)

subsection \<open>Claims about order creation\<close>

text \<open>
  Claim C2 (total integrity: the total is subtotal plus shipping plus tax, the subtotal
  is the sum of price times quantity, and each persisted line's total is its unit price
  times its quantity), evaluated on the code. A checkout of three pieces at the price
  0.004 is accepted, since the items' prices and quantities are not validated and the
  product of the two numbers is rounded to the column separately from the price: the
  reply is 201 and the persisted line has price 0.00, quantity 3 and total 0.01, which is
  not the stored price times the stored quantity.
\<close>

theorem createOrder_subcent_price:
  "createOrder 7 checkout_subcent mail_down shop =
     (Response 201 ''Order created successfully'' (OrderInfo 1 ''ORD-1-001'' 1), shop_after_subcent)
   \<and> map oi_product_price (order_items shop_after_subcent) = [0]
   \<and> map oi_quantity (order_items shop_after_subcent) = [3]
   \<and> map oi_total_price (order_items shop_after_subcent) = [1]
   \<and> map (\<lambda>row. oi_product_price row * oi_quantity row) (order_items shop_after_subcent)
        \<noteq> map oi_total_price (order_items shop_after_subcent)
   \<and> map o_subtotal (orders shop_after_subcent) = [1]
   \<and> map o_total_amount (orders shop_after_subcent) = [1]"
proof -
  have "createOrder 7 checkout_subcent mail_down shop =
     (Response 201 ''Order created successfully'' (OrderInfo 1 ''ORD-1-001'' 1), shop_after_subcent)"
    by (simp add: createOrder_def order_request_valid_def checkout_subcent_def home_def shop_def
        mail_down_def insert_order_def insert_order_item_def subtract_stock_def
        shop_after_subcent_def placed_def sendOrderConfirmationEmail_def Let_def
        decimal_column_def int_column_def toFixed2_def round_half_away_def)
  then show ?thesis
    by (simp add: shop_after_subcent_def placed_def)
qed

text \<open>
  On requests whose prices have at most two decimals and whose quantities are whole
  numbers nothing is lost in the columns, and the property of claim C2 holds for every
  header and every line the call inserts.
\<close>

lemma round_half_away_mult: "round_half_away (real_of_int a * real_of_int b) = a * b"
  by (simp flip: of_int_mult)

lemma cent_columns:
  "decimal_column (real_of_int c / 100) = c"
  "int_column (real_of_int q) = q"
  "decimal_column (real_of_int c / 100 * real_of_int q) = c * q"
  by (simp_all add: decimal_column_def int_column_def round_half_away_mult)

lemma cent_items_sum:
  assumes "\<forall>it \<in> set its. \<exists>c q. price it = real_of_int c / 100 \<and> quantity it = real_of_int q"
  shows "(\<Sum>it\<leftarrow>its. price it * quantity it)
           = real_of_int (\<Sum>it\<leftarrow>its. decimal_column (price it * quantity it)) / 100"
  using assms
proof (induction its)
  case Nil
  then show ?case by simp
next
  case (Cons it its)
  from Cons.prems obtain c q where cq: "price it = real_of_int c / 100" "quantity it = real_of_int q"
    by auto
  from Cons have "(\<Sum>it\<leftarrow>its. price it * quantity it)
           = real_of_int (\<Sum>it\<leftarrow>its. decimal_column (price it * quantity it)) / 100"
    by simp
  moreover have "price it * quantity it = real_of_int (decimal_column (price it * quantity it)) / 100"
    unfolding cq cent_columns by simp
  ultimately show ?case by (simp add: add_divide_distrib)
qed

lemma createOrder_total_integrity_for_cent_prices:
  assumes "createOrder userId req env d = (r, d')"
    and "\<forall>it \<in> set (items req). \<exists>c q. price it = real_of_int c / 100 \<and> quantity it = real_of_int q"
  shows "\<exists>new lines. orders d' = orders d @ new \<and> order_items d' = order_items d @ lines
           \<and> (\<forall>ord \<in> set new.
                 o_total_amount ord = o_subtotal ord + o_shipping_cost ord + o_tax_amount ord
                 \<and> real_of_int (o_subtotal ord) / 100 = (\<Sum>it\<leftarrow>items req. price it * quantity it))
           \<and> (\<forall>row \<in> set lines. oi_total_price row = oi_product_price row * oi_quantity row)
           \<and> (status r = 201 \<longrightarrow>
                 (\<exists>ord. new = [ord] \<and> lines = map (order_item_of (o_id ord)) (items req)
                    \<and> o_subtotal ord = sum_list (map oi_total_price lines)))"
proof -
  from createOrder_writes [OF assms(1)] obtain new k where w:
    "orders d' = orders d @ new" "k \<le> length (items req)"
    "order_items d' = order_items d @ map (order_item_of (next_order_id d)) (take k (items req))"
    "new = [] \<or> new = [(order_header userId req env)\<lparr>o_id := next_order_id d\<rparr>]"
    "status r = 201 \<longrightarrow> new \<noteq> [] \<and> k = length (items req)" by blast
  let ?lines = "map (order_item_of (next_order_id d)) (take k (items req))"
  let ?sum = "\<Sum>it\<leftarrow>items req. decimal_column (price it * quantity it)"
  have sub: "decimal_column (\<Sum>it\<leftarrow>items req. price it * quantity it) = ?sum"
    by (simp add: cent_items_sum [OF assms(2)] decimal_column_def)
  have a: "\<forall>ord \<in> set new.
             o_total_amount ord = o_subtotal ord + o_shipping_cost ord + o_tax_amount ord
             \<and> real_of_int (o_subtotal ord) / 100 = (\<Sum>it\<leftarrow>items req. price it * quantity it)"
    using w(4) sub cent_items_sum [OF assms(2)] by (auto simp: order_header_def)
  have b: "\<forall>row \<in> set ?lines. oi_total_price row = oi_product_price row * oi_quantity row"
  proof
    fix row assume "row \<in> set ?lines"
    then obtain it where it: "it \<in> set (items req)" "row = order_item_of (next_order_id d) it"
      by (auto dest: in_set_takeD)
    with assms(2) obtain c q where cq: "price it = real_of_int c / 100" "quantity it = real_of_int q"
      by blast
    have "oi_total_price row = decimal_column (price it * quantity it)"
      "oi_product_price row = decimal_column (price it)" "oi_quantity row = int_column (quantity it)"
      by (simp_all add: it(2) order_item_of_def)
    then show "oi_total_price row = oi_product_price row * oi_quantity row"
      unfolding cq cent_columns by simp
  qed
  have c: "status r = 201 \<longrightarrow>
             (\<exists>ord. new = [ord] \<and> ?lines = map (order_item_of (o_id ord)) (items req)
                \<and> o_subtotal ord = sum_list (map oi_total_price ?lines))"
    using w(4,5) sub by (auto simp: order_header_def order_item_of_def comp_def)
  from w(1,3) a b c show ?thesis by blast
qed

text \<open>
  Claim C10 (no shipping cost, no tax). Every order header inserted by \<open>createOrder\<close>
  has \<open>shipping_cost = 0\<close> and \<open>tax_amount = 0\<close>, hence \<open>total_amount = subtotal\<close>,
  while the submitted delivery method, whatever it is, is only copied into
  \<open>shipping_method\<close>.
\<close>

theorem createOrder_no_shipping_no_tax:
  assumes "createOrder userId req env d = (r, d')"
  shows "\<exists>new. orders d' = orders d @ new
           \<and> (\<forall>ord \<in> set new. o_shipping_cost ord = 0 \<and> o_tax_amount ord = 0
                 \<and> o_total_amount ord = o_subtotal ord
                 \<and> o_shipping_method ord = deliveryMethod req)
           \<and> (status r = 201 \<longrightarrow> length new = 1)"
proof -
  from createOrder_writes [OF assms] obtain new where w:
    "orders d' = orders d @ new"
    "new = [] \<or> new = [(order_header userId req env)\<lparr>o_id := next_order_id d\<rparr>]"
    "status r = 201 \<longrightarrow> new \<noteq> []" by blast
  then show ?thesis by (auto simp: order_header_def)
qed

theorem createOrder_no_shipping_no_tax_witness:
  "createOrder 7 (checkout 4) mail_down shop =
     (Response 201 ''Order created successfully'' (OrderInfo 1 ''ORD-1-001'' 2000), shop_after 4)
   \<and> deliveryMethod (checkout 4) = ''express''
   \<and> orders (shop_after 4) = orders shop @ [placed 4]
   \<and> o_shipping_cost (placed 4) = 0 \<and> o_tax_amount (placed 4) = 0
   \<and> o_total_amount (placed 4) = o_subtotal (placed 4)"
proof -
  have "createOrder 7 (checkout 4) mail_down shop =
          (Response 201 ''Order created successfully'' (OrderInfo 1 ''ORD-1-001'' 2000), shop_after 4)"
    using createOrder_shop(1) by simp
  moreover have "orders (shop_after 4) = orders shop @ [placed 4]"
    by (simp add: shop_after_def shop_def)
  moreover have "deliveryMethod (checkout 4) = ''express''"
    by (simp add: checkout_def)
  moreover have "o_shipping_cost (placed 4) = 0" "o_tax_amount (placed 4) = 0"
    "o_total_amount (placed 4) = o_subtotal (placed 4)"
    by (simp_all add: placed_def)
  ultimately have concrete: ?thesis by simp
  from createOrder_no_shipping_no_tax [OF createOrder_shop(1)] show ?thesis
    by - (rule concrete)
qed

text \<open>
  Claim C7 (mail failure is swallowed). When the request is valid and the database
  writes succeed (the order number is not taken and every item names an existing
  product), a failing mail transport makes \<open>sendOrderConfirmationEmail\<close> return
  \<open>False\<close> and nothing else: the reply is the 201 success, and reply and database are
  the same as with a delivered mail.
\<close>

theorem createOrder_mail_failure_swallowed:
  assumes "order_request_valid req"
    and "orderNumber env \<notin> set (map o_order_number (orders d))"
    and "\<forall>it \<in> set (items req). product it \<in> set (map p_id (products d))"
  shows "sendOrderConfirmationEmail (Inl err) = False
         \<and> createOrder userId req (env\<lparr>sendMail := Inl err\<rparr>) d
             = createOrder userId req (env\<lparr>sendMail := Inr info\<rparr>) d
         \<and> fst (createOrder userId req (env\<lparr>sendMail := Inl err\<rparr>) d) =
             Response 201 ''Order created successfully''
               (OrderInfo (next_order_id d) (orderNumber env)
                  (toFixed2 (\<Sum>it\<leftarrow>items req. price it * quantity it)))"
proof -
  let ?env = "env\<lparr>sendMail := Inl err\<rparr>"
  let ?d1 = "d\<lparr>orders := orders d @ [(order_header userId req ?env)\<lparr>o_id := next_order_id d\<rparr>],
               next_order_id := next_order_id d + 1\<rparr>"
  have ins: "insert_order (order_header userId req ?env) d = Inr ?d1"
    using assms(2) by (simp add: insert_order_def order_header_def)
  have "fst (write_order_items (next_order_id d) (map line_of_item (items req)) ?d1) = None"
    using assms(3) by (intro write_order_items_succeeds) (simp_all add: line_of_item_def)
  then obtain d2 where "write_order_items (next_order_id d) (map line_of_item (items req)) ?d1 = (None, d2)"
    by (metis prod.collapse)
  with ins assms(1) have reply: "fst (createOrder userId req ?env d) =
      Response 201 ''Order created successfully''
        (OrderInfo (next_order_id d) (orderNumber env)
           (toFixed2 (\<Sum>it\<leftarrow>items req. price it * quantity it)))"
    by (simp add: createOrder_valid)
  have same: "createOrder userId req ?env d = createOrder userId req (env\<lparr>sendMail := Inr info\<rparr>) d"
    by (cases "order_request_valid req")
      (simp_all add: createOrder_valid createOrder_invalid order_header_def
         split: sum.splits prod.splits option.splits)
  have "sendOrderConfirmationEmail (Inl err) = False"
    by (simp add: sendOrderConfirmationEmail_def)
  with reply same show ?thesis by blast
qed

theorem createOrder_mail_failure_swallowed_witness:
  "order_request_valid (checkout 4)
   \<and> orderNumber mail_down \<notin> set (map o_order_number (orders shop))
   \<and> product (hd (items (checkout 4))) \<in> set (map p_id (products shop))
   \<and> fst (createOrder 7 (checkout 4) mail_down shop) =
        Response 201 ''Order created successfully'' (OrderInfo 1 ''ORD-1-001'' 2000)"
proof -
  have valid: "order_request_valid (checkout 4)"
    by (simp add: order_request_valid_def checkout_def home_def)
  have fresh: "orderNumber mail_down \<notin> set (map o_order_number (orders shop))"
    by (simp add: shop_def)
  have known: "\<forall>it \<in> set (items (checkout 4)). product it \<in> set (map p_id (products shop))"
    by (simp add: checkout_def shop_def)
  have "mail_down\<lparr>sendMail := Inl ''ECONNREFUSED''\<rparr> = mail_down"
    by (simp add: mail_down_def)
  with createOrder_mail_failure_swallowed [OF valid fresh known, of "''ECONNREFUSED''" 7]
  have "fst (createOrder 7 (checkout 4) mail_down shop) =
          Response 201 ''Order created successfully''
            (OrderInfo (next_order_id shop) (orderNumber mail_down)
               (toFixed2 (\<Sum>it\<leftarrow>items (checkout 4). price it * quantity it)))"
    by simp
  with valid fresh known show ?thesis
    by (simp add: checkout_def shop_def mail_down_def toFixed2_def round_half_away_def)
qed

text \<open>
  Claim C8 as stated (after a successful checkout the caller's cart session and its
  lines are deleted) fails: user 7 checks out the four units held in session \<^verbatim>\<open>s1\<close>,
  naming that session in the request; the reply is 201 and the session and its line are
  still there.
\<close>

theorem createOrder_cart_deleted_counterexample:
  "status (fst (createOrder 7 (checkout 4) mail_down shop)) = 201
   \<and> sessionId (checkout 4) = Some ''s1''
   \<and> cart_sessions (snd (createOrder 7 (checkout 4) mail_down shop))
        = [\<lparr>cs_session_id = ''s1'', cs_user_id = Some 7\<rparr>]
   \<and> cart_items (snd (createOrder 7 (checkout 4) mail_down shop))
        = [\<lparr>ci_id = 1, ci_session_id = ''s1'', ci_product_id = 1, ci_quantity = 4\<rparr>]"
  by (simp add: createOrder_shop) (simp add: shop_after_def shop_def checkout_def)

text \<open>
  Claim C8 as amended. After a call to \<open>createOrder\<close>, and so after a successful
  checkout, the caller's cart session and its cart lines are not deleted:
  \<^verbatim>\<open>cart_sessions\<close> and \<^verbatim>\<open>cart_items\<close> are what they were before the call.
\<close>

theorem createOrder_keeps_cart:
  "cart_sessions (snd (createOrder userId req env d)) = cart_sessions d
   \<and> cart_items (snd (createOrder userId req env d)) = cart_items d"
  using createOrder_writes [of userId req env d "fst (createOrder userId req env d)" "snd (createOrder userId req env d)"]
  by auto

text \<open>
  Claim C1 (atomic order creation with a stock check), evaluated on the code. The shop
  holds 10 units and the checkout asks for 12: the reply is the 201 success, the header
  and the line are persisted, and the stock is \<open>- 2\<close>.
\<close>

theorem createOrder_oversell:
  "createOrder 7 (checkout 12) mail_down shop =
     (Response 201 ''Order created successfully'' (OrderInfo 1 ''ORD-1-001'' 6000), shop_after 12)
   \<and> map p_stock (products shop) = [10]
   \<and> map p_stock (products (shop_after 12)) = [- 2]
   \<and> orders (shop_after 12) = [placed 12]
   \<and> map oi_quantity (order_items (shop_after 12)) = [12]"
  by (simp add: createOrder_shop) (simp add: shop_after_def shop_def)

text \<open>
  The writes are not one unit either: when the second line's INSERT throws, the reply is
  500 while the header, the first line and the first stock decrement stay.
\<close>

lemma createOrder_partial_write:
  "status (fst (createOrder 7 checkout_unknown mail_down shop)) = 500
   \<and> map o_order_number (orders (snd (createOrder 7 checkout_unknown mail_down shop))) = [''ORD-1-001'']
   \<and> map oi_product_id (order_items (snd (createOrder 7 checkout_unknown mail_down shop))) = [1]
   \<and> map p_stock (products (snd (createOrder 7 checkout_unknown mail_down shop))) = [6]"
  by (simp add: createOrder_def order_request_valid_def checkout_unknown_def home_def shop_def
        mail_down_def insert_order_def insert_order_item_def subtract_stock_def Let_def
        decimal_column_def int_column_def round_half_away_def)

section \<open>Order cancellation\<close>

lemma filter_map_commute:
  "(\<And>x. P (f x) = P x) \<Longrightarrow> filter P (map f xs) = map f (filter P xs)"
  by (induction xs) simp_all

lemma restore_stock_eq:
  "restore_stock its d =
     d\<lparr>products := map (\<lambda>p. p\<lparr>p_stock := p_stock p +
             (\<Sum>it\<leftarrow>filter (\<lambda>it. oi_product_id it = p_id p) its. oi_quantity it)\<rparr>) (products d)\<rparr>"
proof (induction its arbitrary: d)
  case Nil
  show ?case by simp
next
  case (Cons it its)
  show ?case
    by (simp add: Cons.IH add_stock_def comp_def)
qed

text \<open>
  Claim C3 (cancellation terminality). For an order of the caller: in status
  \<open>Delivered\<close> or \<open>Cancelled\<close> the reply is 400 and the database is unchanged; in
  status \<open>Pending\<close>, \<open>Processing\<close> or \<open>Shipped\<close> the reply is 200, the order's status
  becomes \<open>Cancelled\<close>, the stock of every product grows by the summed quantities of this
  order's lines for that product and nothing else changes; cancelling once more then
  replies 400 and restores nothing a second time.
\<close>

theorem cancelOrder_terminality:
  assumes "filter (\<lambda>ord. o_id ord = orderId \<and> o_user_id ord = userId) (orders d) = ord # others"
  shows "(o_status ord = Delivered \<or> o_status ord = Cancelled \<longrightarrow>
            status (fst (cancelOrder userId orderId d)) = 400
            \<and> snd (cancelOrder userId orderId d) = d)
       \<and> (o_status ord = Pending \<or> o_status ord = Processing \<or> o_status ord = Shipped \<longrightarrow>
            cancelOrder userId orderId d =
              (Response 200 ''Order cancelled successfully'' NoPayload,
               d\<lparr>orders := map (\<lambda>x. if o_id x = orderId then x\<lparr>o_status := Cancelled\<rparr> else x)
                               (orders d),
                 products := map (\<lambda>p. p\<lparr>p_stock := p_stock p +
                     (\<Sum>it\<leftarrow>filter (\<lambda>it. oi_order_id it = orderId \<and> oi_product_id it = p_id p)
                                     (order_items d). oi_quantity it)\<rparr>) (products d)\<rparr>)
            \<and> status (fst (cancelOrder userId orderId (snd (cancelOrder userId orderId d)))) = 400
            \<and> snd (cancelOrder userId orderId (snd (cancelOrder userId orderId d)))
                = snd (cancelOrder userId orderId d))"
proof -
  let ?sel = "\<lambda>x. o_id x = orderId \<and> o_user_id x = userId"
  let ?upd = "\<lambda>x. if o_id x = orderId then x\<lparr>o_status := Cancelled\<rparr> else x"
  let ?d' = "d\<lparr>orders := map ?upd (orders d),
               products := map (\<lambda>p. p\<lparr>p_stock := p_stock p +
                     (\<Sum>it\<leftarrow>filter (\<lambda>it. oi_order_id it = orderId \<and> oi_product_id it = p_id p)
                                     (order_items d). oi_quantity it)\<rparr>) (products d)\<rparr>"
  have terminal: "o_status ord = Delivered \<or> o_status ord = Cancelled \<Longrightarrow>
      cancelOrder userId orderId d = (Response 400 (if o_status ord = Cancelled
         then ''Order is already cancelled'' else ''Cannot cancel delivered order'') NoPayload, d)"
    using assms by (auto simp: cancelOrder_def)
  have live: "cancelOrder userId orderId d =
                (Response 200 ''Order cancelled successfully'' NoPayload, ?d')"
    if "o_status ord = Pending \<or> o_status ord = Processing \<or> o_status ord = Shipped"
    using assms that
    by (auto simp: cancelOrder_def Let_def restore_stock_eq set_order_status_def conj_commute)
  have "filter ?sel (map ?upd (orders d)) = map ?upd (filter ?sel (orders d))"
    by (rule filter_map_commute) simp
  then have sel': "filter ?sel (orders ?d') = ?upd ord # map ?upd others"
    using assms by simp
  have "o_id ord = orderId"
    using assms by (metis (mono_tags, lifting) filter_eq_ConsD)
  then have again: "cancelOrder userId orderId ?d' =
                (Response 400 ''Order is already cancelled'' NoPayload, ?d')"
    using sel' by (simp add: cancelOrder_def)
  from terminal live again show ?thesis by auto
qed

theorem cancelOrder_terminality_witness:
  "filter (\<lambda>ord. o_id ord = 1 \<and> o_user_id ord = 7) (orders (shop_after 4)) = [placed 4]
   \<and> o_status (placed 4) = Pending
   \<and> cancelOrder 7 1 (shop_after 4) =
       (Response 200 ''Order cancelled successfully'' NoPayload, shop_cancelled)
   \<and> map p_stock (products shop_cancelled) = [10]
   \<and> filter (\<lambda>ord. o_id ord = 1 \<and> o_user_id ord = 7) (orders shop_cancelled)
       = [(placed 4)\<lparr>o_status := Cancelled\<rparr>]
   \<and> status (fst (cancelOrder 7 1 shop_cancelled)) = 400
   \<and> snd (cancelOrder 7 1 shop_cancelled) = shop_cancelled
   \<and> filter (\<lambda>ord. o_id ord = 1 \<and> o_user_id ord = 7) (orders shop_delivered)
       = [(placed 4)\<lparr>o_status := Delivered\<rparr>]
   \<and> status (fst (cancelOrder 7 1 shop_delivered)) = 400
   \<and> snd (cancelOrder 7 1 shop_delivered) = shop_delivered"
proof -
  have sel'': "filter (\<lambda>ord. o_id ord = 1 \<and> o_user_id ord = 7) (orders shop_delivered)
                = [(placed 4)\<lparr>o_status := Delivered\<rparr>]"
    by (simp add: shop_delivered_def shop_after_def placed_def)
  have delivered: "o_status ((placed 4)\<lparr>o_status := Delivered\<rparr>) = Delivered"
    by simp
  have sel: "filter (\<lambda>ord. o_id ord = 1 \<and> o_user_id ord = 7) (orders (shop_after 4)) = [placed 4]"
    by (simp add: shop_after_def placed_def)
  have sel': "filter (\<lambda>ord. o_id ord = 1 \<and> o_user_id ord = 7) (orders shop_cancelled)
                = [(placed 4)\<lparr>o_status := Cancelled\<rparr>]"
    by (simp add: shop_cancelled_def shop_after_def placed_def)
  have live: "o_status (placed 4) = Pending"
    by (simp add: placed_def)
  have cancelled: "o_status ((placed 4)\<lparr>o_status := Cancelled\<rparr>) = Cancelled"
    by simp
  have after: "shop_after 4
      \<lparr>orders := map (\<lambda>x. if o_id x = 1 then x\<lparr>o_status := Cancelled\<rparr> else x) (orders (shop_after 4)),
       products := map (\<lambda>p. p\<lparr>p_stock := p_stock p +
           (\<Sum>it\<leftarrow>filter (\<lambda>it. oi_order_id it = 1 \<and> oi_product_id it = p_id p)
                           (order_items (shop_after 4)). oi_quantity it)\<rparr>) (products (shop_after 4))\<rparr>
      = shop_cancelled"
    by (simp add: shop_cancelled_def shop_after_def placed_def shop_def)
  from cancelOrder_terminality [OF sel] live after
  have "cancelOrder 7 1 (shop_after 4) =
          (Response 200 ''Order cancelled successfully'' NoPayload, shop_cancelled)"
    by simp
  moreover from cancelOrder_terminality [OF sel'] cancelled
  have "status (fst (cancelOrder 7 1 shop_cancelled)) = 400
        \<and> snd (cancelOrder 7 1 shop_cancelled) = shop_cancelled"
    by blast
  moreover from cancelOrder_terminality [OF sel''] delivered
  have "status (fst (cancelOrder 7 1 shop_delivered)) = 400
        \<and> snd (cancelOrder 7 1 shop_delivered) = shop_delivered"
    by blast
  moreover have "map p_stock (products shop_cancelled) = [10]"
    by (simp add: shop_cancelled_def shop_after_def)
  ultimately show ?thesis using sel sel' sel'' live by simp
qed

section \<open>Cart\<close>

subsection \<open>Guest carts\<close>

lemma lines_of_unused: "u \<notin> set (map ci_session_id (cart_items d)) \<Longrightarrow> lines_of u pid d = []"
  by (auto simp: lines_of_def filter_empty_conv)

lemma active_product_known:
  "filter (\<lambda>p. p_id p = pid \<and> p_status p = Active) (products d) = prd # others
     \<Longrightarrow> pid \<in> set (map p_id (products d))"
proof -
  assume "filter (\<lambda>p. p_id p = pid \<and> p_status p = Active) (products d) = prd # others"
  then have "prd \<in> set (filter (\<lambda>p. p_id p = pid \<and> p_status p = Active) (products d))"
    by simp
  then show ?thesis by auto
qed

lemma guest_add:
  assumes "1 \<le> pid" "1 \<le> qty"
    and "filter (\<lambda>p. p_id p = pid \<and> p_status p = Active) (products d) = prd # others"
    and "qty \<le> p_stock prd"
    and "session_unused u d"
    and "to_number v = Some qty"
  shows "addItem None pid v u d =
           (Response 200 ''Item added to cart successfully'' (SessionId (Some u)),
            guest_added u pid qty d)"
proof -
  let ?d1 = "d\<lparr>cart_sessions := cart_sessions d @ [\<lparr>cs_session_id = u, cs_user_id = None\<rparr>]\<rparr>"
  have s: "getOrCreateCartSession None u d = Inr (u, ?d1)"
    using assms(5) by (simp add: getOrCreateCartSession_def insert_cart_session_def session_unused_def)
  have l: "lines_of u pid ?d1 = []"
    using assms(5) by (simp add: lines_of_def session_unused_def filter_empty_conv) force
  have "(u, pid) \<notin> set (map (\<lambda>ci. (ci_session_id ci, ci_product_id ci)) (cart_items ?d1))"
    using assms(5) by (auto simp: session_unused_def)
  then have i: "insert_cart_item u pid qty ?d1 = Inr (guest_added u pid qty d)"
    using active_product_known [OF assms(3)]
    by (simp add: insert_cart_item_def guest_added_def)
  from assms(1,2,3,4,6) s l i show ?thesis
    by (simp add: addItem_def isInt_def js_less_def sql_int_def)
qed

lemma guest_added_unused:
  "session_unused u2 d \<Longrightarrow> u1 \<noteq> u2 \<Longrightarrow> session_unused u2 (guest_added u1 pid q d)"
  by (simp add: session_unused_def guest_added_def)

lemma products_shop: "products shop = [olive]"
  by (simp add: shop_def olive_def)

text \<open>
  Claim C9 (guests always get a new session). The handler of \<^verbatim>\<open>POST /cart/add\<close>
  takes nothing from the request but \<^verbatim>\<open>productId\<close> and \<^verbatim>\<open>quantity\<close>. For a caller
  without a user, a valid request for an active product with enough stock (the quantity
  sent as a number or as a string, \<open>q1\<close> and \<open>q2\<close> being the numbers sent), and unused
  tokens from \<^verbatim>\<open>uuidv4()\<close>: the reply is 200 and returns the new token, the database
  gains a session without user and one line in it; a second add of the same product lands
  in a second session with its own line, and each quantity is checked against the stock
  alone, never their sum.
\<close>

theorem guest_add_new_session:
  assumes "1 \<le> pid" "1 \<le> q1" "1 \<le> q2"
    and "filter (\<lambda>p. p_id p = pid \<and> p_status p = Active) (products d) = prd # others"
    and "q1 \<le> p_stock prd" "q2 \<le> p_stock prd"
    and "session_unused u1 d" "session_unused u2 d" "u1 \<noteq> u2"
    and "to_number v1 = Some q1" "to_number v2 = Some q2"
  shows "addItem None pid v1 u1 d =
           (Response 200 ''Item added to cart successfully'' (SessionId (Some u1)),
            guest_added u1 pid q1 d)
       \<and> addItem None pid v2 u2 (guest_added u1 pid q1 d) =
           (Response 200 ''Item added to cart successfully'' (SessionId (Some u2)),
            guest_added u2 pid q2 (guest_added u1 pid q1 d))
       \<and> map ci_quantity (lines_of u1 pid (guest_added u2 pid q2 (guest_added u1 pid q1 d))) = [q1]
       \<and> map ci_quantity (lines_of u2 pid (guest_added u2 pid q2 (guest_added u1 pid q1 d))) = [q2]"
proof -
  have first: "addItem None pid v1 u1 d =
           (Response 200 ''Item added to cart successfully'' (SessionId (Some u1)),
            guest_added u1 pid q1 d)"
    using assms by (intro guest_add) 
  have "products (guest_added u1 pid q1 d) = products d"
    by (simp add: guest_added_def)
  with assms(4) have "filter (\<lambda>p. p_id p = pid \<and> p_status p = Active)
      (products (guest_added u1 pid q1 d)) = prd # others" by simp
  then have second: "addItem None pid v2 u2 (guest_added u1 pid q1 d) =
           (Response 200 ''Item added to cart successfully'' (SessionId (Some u2)),
            guest_added u2 pid q2 (guest_added u1 pid q1 d))"
    using assms guest_added_unused by (intro guest_add) 
  have "lines_of u1 pid d = []" "lines_of u2 pid d = []"
    using assms(7,8) by (simp_all add: lines_of_unused session_unused_def)
  then have "map ci_quantity (lines_of u1 pid (guest_added u2 pid q2 (guest_added u1 pid q1 d))) = [q1]"
    "map ci_quantity (lines_of u2 pid (guest_added u2 pid q2 (guest_added u1 pid q1 d))) = [q2]"
    using assms(9) by (simp_all add: lines_of_def guest_added_def)
  with first second show ?thesis by simp
qed

theorem guest_add_new_session_witness:
  "filter (\<lambda>p. p_id p = 1 \<and> p_status p = Active) (products shop) = [olive]
   \<and> p_stock olive = 10 \<and> session_unused ''g1'' shop \<and> session_unused ''g2'' shop
   \<and> addItem None 1 (JNum 6) ''g1'' shop =
        (Response 200 ''Item added to cart successfully'' (SessionId (Some ''g1'')),
         guest_added ''g1'' 1 6 shop)
   \<and> addItem None 1 (JNum 7) ''g2'' (guest_added ''g1'' 1 6 shop) =
        (Response 200 ''Item added to cart successfully'' (SessionId (Some ''g2'')),
         guest_added ''g2'' 1 7 (guest_added ''g1'' 1 6 shop))
   \<and> map ci_quantity (lines_of ''g1'' 1 (guest_added ''g2'' 1 7 (guest_added ''g1'' 1 6 shop))) = [6]
   \<and> map ci_quantity (lines_of ''g2'' 1 (guest_added ''g2'' 1 7 (guest_added ''g1'' 1 6 shop))) = [7]"
proof -
  have act: "filter (\<lambda>p. p_id p = 1 \<and> p_status p = Active) (products shop) = olive # []"
    by (simp add: products_shop) (simp add: olive_def)
  have st: "p_stock olive = 10" "6 \<le> p_stock olive" "7 \<le> p_stock olive"
    by (simp_all add: olive_def)
  have un: "session_unused ''g1'' shop" "session_unused ''g2'' shop"
    by (simp_all add: session_unused_def shop_def)
  from guest_add_new_session [OF _ _ _ act st(2,3) un, of "JNum 6" "JNum 7"] act st(1) un
  show ?thesis by simp
qed

subsection \<open>Merging a guest cart\<close>

lemma filter_all: "\<forall>x \<in> set xs. P x \<Longrightarrow> filter P xs = xs"
  by (induction xs) simp_all

lemma mergeCarts_ok_shape:
  assumes "mergeCarts userId (Some g) u d = (r, d')" and "status r = 200"
  shows "g \<noteq> [] \<and> (\<exists>d2. d' = delete_session_items g (delete_cart_session g d2))"
proof -
  from assms have g: "g \<noteq> []"
    by (auto simp: mergeCarts_def split: if_splits)
  with assms show ?thesis
    by (auto simp: mergeCarts_def Let_def split: prod.splits sum.splits option.splits list.splits)
qed

lemma merged_has_no_guest:
  "\<forall>ci \<in> set (cart_items (delete_session_items g (delete_cart_session g d))). ci_session_id ci \<noteq> g"
  "\<forall>s \<in> set (cart_sessions (delete_session_items g (delete_cart_session g d))). cs_session_id s \<noteq> g"
  by (simp_all add: delete_session_items_def delete_cart_session_def)

lemma mergeCarts_nothing_to_merge:
  assumes "g \<noteq> []"
    and items: "\<forall>ci \<in> set (cart_items d). ci_session_id ci \<noteq> g"
    and sessions: "\<forall>s \<in> set (cart_sessions d). cs_session_id s \<noteq> g"
    and fresh: "u \<notin> set (map cs_session_id (cart_sessions d))"
  shows "\<exists>d2. mergeCarts userId (Some g) u d = (Response 200 ''Cart merged successfully'' NoPayload, d2)
           \<and> cart_items d2 = cart_items d
           \<and> (sessions_of_user userId d \<noteq> [] \<longrightarrow> d2 = d)"
proof (cases "sessions_of_user userId d")
  case Nil
  let ?d1 = "d\<lparr>cart_sessions := cart_sessions d @ [\<lparr>cs_session_id = u, cs_user_id = Some userId\<rparr>]\<rparr>"
  have ins: "insert_cart_session u (Some userId) d = Inr ?d1"
    using fresh by (simp add: insert_cart_session_def)
  have none: "filter (\<lambda>ci. ci_session_id ci = g) (cart_items ?d1) = []"
    using items by (simp add: filter_empty_conv)
  have keep: "filter (\<lambda>ci. ci_session_id ci \<noteq> g) (cart_items d) = cart_items d"
    using items by (intro filter_all) simp
  have "mergeCarts userId (Some g) u d =
          (Response 200 ''Cart merged successfully'' NoPayload,
           delete_session_items g (delete_cart_session g ?d1))"
    using assms(1) Nil ins none by (simp add: mergeCarts_def)
  moreover have "cart_items (delete_session_items g (delete_cart_session g ?d1)) = cart_items d"
    using keep by (simp add: delete_session_items_def delete_cart_session_def)
  ultimately show ?thesis using Nil by simp
next
  case (Cons s rest)
  have none: "filter (\<lambda>ci. ci_session_id ci = g) (cart_items d) = []"
    using items by (simp add: filter_empty_conv)
  have keep: "filter (\<lambda>ci. ci_session_id ci \<noteq> g) (cart_items d) = cart_items d"
    using items by (intro filter_all) simp
  have keep': "filter (\<lambda>s. cs_session_id s \<noteq> g) (cart_sessions d) = cart_sessions d"
    using sessions by (intro filter_all) simp
  have "mergeCarts userId (Some g) u d =
          (Response 200 ''Cart merged successfully'' NoPayload,
           delete_session_items g (delete_cart_session g d))"
    using assms(1) Cons none by (simp add: mergeCarts_def)
  moreover have "delete_session_items g (delete_cart_session g d) = d"
    using keep keep' by (simp add: delete_session_items_def delete_cart_session_def)
  ultimately show ?thesis by simp
qed

lemma merge_guest_shop:
  "mergeCarts 7 (Some ''g1'') ''u9'' (guest_added ''g1'' 1 6 shop) =
     (Response 200 ''Cart merged successfully'' NoPayload, merged_shop)"
  by (simp add: mergeCarts_def guest_added_def shop_def sessions_of_user_def lines_of_def
        update_cart_quantity_def delete_session_items_def delete_cart_session_def merged_shop_def)

text \<open>
  Claim C4 (merge idempotence). After a merge of guest session \<open>g\<close> that replied 200,
  merging \<open>g\<close> again replies 200 and leaves every cart line as the first merge left it;
  the whole database is unchanged whenever the user still has a session (only when the
  guest token was the user's own session, which the first merge deleted, does the second
  call create a session for the user, from an unused token).
\<close>

theorem mergeCarts_idempotent:
  assumes "mergeCarts userId (Some g) u1 d = (r1, d1)" and "status r1 = 200"
    and "u2 \<notin> set (map cs_session_id (cart_sessions d1))"
  shows "\<exists>d2. mergeCarts userId (Some g) u2 d1 =
                 (Response 200 ''Cart merged successfully'' NoPayload, d2)
           \<and> cart_items d2 = cart_items d1
           \<and> (sessions_of_user userId d1 \<noteq> [] \<longrightarrow> d2 = d1)"
proof -
  from mergeCarts_ok_shape [OF assms(1,2)] obtain d' where
    g: "g \<noteq> []" and d1: "d1 = delete_session_items g (delete_cart_session g d')" by blast
  from d1 merged_has_no_guest [of g d'] have
    "\<forall>ci \<in> set (cart_items d1). ci_session_id ci \<noteq> g"
    "\<forall>s \<in> set (cart_sessions d1). cs_session_id s \<noteq> g" by simp_all
  with g assms(3) show ?thesis by (intro mergeCarts_nothing_to_merge)
qed

theorem mergeCarts_idempotent_witness:
  "mergeCarts 7 (Some ''g1'') ''u9'' (guest_added ''g1'' 1 6 shop) =
     (Response 200 ''Cart merged successfully'' NoPayload, merged_shop)
   \<and> map ci_quantity (cart_items merged_shop) = [10]
   \<and> ''u9'' \<notin> set (map cs_session_id (cart_sessions merged_shop))
   \<and> mergeCarts 7 (Some ''g1'') ''u9'' merged_shop =
        (Response 200 ''Cart merged successfully'' NoPayload, merged_shop)"
proof -
  have fresh: "''u9'' \<notin> set (map cs_session_id (cart_sessions merged_shop))"
    by (simp add: merged_shop_def shop_def)
  have mine: "sessions_of_user 7 merged_shop \<noteq> []"
    by (simp add: sessions_of_user_def merged_shop_def shop_def)
  have q: "map ci_quantity (cart_items merged_shop) = [10]"
    by (simp add: merged_shop_def)
  from mergeCarts_idempotent [OF merge_guest_shop _ fresh] mine
  have "mergeCarts 7 (Some ''g1'') ''u9'' merged_shop =
          (Response 200 ''Cart merged successfully'' NoPayload, merged_shop)"
    by auto
  with merge_guest_shop fresh q show ?thesis by simp
qed

subsection \<open>Adding and updating lines\<close>

lemma filter_key_single:
  "distinct (map f xs) \<Longrightarrow> x \<in> set xs \<Longrightarrow> filter (\<lambda>y. f y = f x) xs = [x]"
proof (induction xs)
  case Nil
  then show ?case by simp
next
  case (Cons a xs)
  show ?case
  proof (cases "a = x")
    case True
    with Cons.prems(1) have "\<forall>y \<in> set xs. f y \<noteq> f x" by (auto simp: image_iff)
    then have "filter (\<lambda>y. f y = f x) xs = []" by (simp add: filter_empty_conv)
    with True show ?thesis by simp
  next
    case False
    with Cons.prems have "x \<in> set xs" "f a \<noteq> f x" by (auto simp: image_iff)
    with Cons show ?thesis by simp
  qed
qed

lemma update_cart_quantity_keys:
  "map (\<lambda>ci. (ci_session_id ci, ci_product_id ci)) (cart_items (update_cart_quantity q i d))
     = map (\<lambda>ci. (ci_session_id ci, ci_product_id ci)) (cart_items d)"
  by (simp add: update_cart_quantity_def comp_def if_distrib cong: if_cong)

lemma update_cart_quantity_unique:
  "cart_unique d \<Longrightarrow> cart_unique (update_cart_quantity q i d)"
  by (simp add: cart_unique_def update_cart_quantity_keys)

lemma delete_cart_item_unique: "cart_unique d \<Longrightarrow> cart_unique (delete_cart_item i d)"
  by (simp add: cart_unique_def delete_cart_item_def distinct_map_filter)

lemma insert_cart_item_unique:
  "cart_unique d \<Longrightarrow> insert_cart_item sid pid q d = Inr d' \<Longrightarrow> cart_unique d'"
  by (auto simp: cart_unique_def insert_cart_item_def split: if_splits)

lemma getOrCreateCartSession_items:
  "getOrCreateCartSession user u d = Inr (sid, d') \<Longrightarrow>
     cart_items d' = cart_items d \<and> products d' = products d
     \<and> next_cart_item_id d' = next_cart_item_id d"
  by (auto simp: getOrCreateCartSession_def insert_cart_session_def
           split: if_splits list.splits sum.splits)

lemma addItem_cart_unique:
  assumes "cart_unique d"
  shows "cart_unique (snd (addItem user pid v u d))"
proof -
  have via: "cart_unique d1" if "getOrCreateCartSession user u d = Inr (sid, d1)" for sid d1
    using getOrCreateCartSession_items [OF that] assms by (simp add: cart_unique_def)
  show ?thesis
    using assms
    by (auto simp: addItem_def Let_def via update_cart_quantity_unique
             split: list.splits sum.splits prod.splits
             intro: insert_cart_item_unique [OF via])
qed

lemma updateItem_cart_unique:
  "cart_unique d \<Longrightarrow> cart_unique (snd (updateItem user i v d))"
  by (auto simp: updateItem_def update_cart_quantity_unique delete_cart_item_unique
           split: list.splits prod.splits sum.splits)

lemma getOrCreateCartSession_user:
  assumes "getOrCreateCartSession (Some uid) u d = Inr (sid, d0)" and "uid \<noteq> 0"
  shows "\<exists>s rest. sessions_of_user uid d0 = s # rest \<and> cs_session_id s = sid"
  using assms
  by (auto simp: getOrCreateCartSession_def insert_cart_session_def sessions_of_user_def
           split: list.splits if_splits)

lemma getOrCreateCartSession_again:
  assumes "sessions_of_user uid d = s # rest" and "uid \<noteq> 0"
  shows "getOrCreateCartSession (Some uid) u d = Inr (cs_session_id s, d)"
  using assms by (simp add: getOrCreateCartSession_def)

lemma owns_own_session:
  assumes "sessions_of_user uid d = s # rest"
  shows "owns_cart_item (Some uid) (cs_session_id s) d"
proof -
  from assms have "s \<in> set (filter (\<lambda>s. cs_user_id s = Some uid) (cart_sessions d))"
    by (simp add: sessions_of_user_def)
  then have "s \<in> set (filter (\<lambda>x. cs_session_id x = cs_session_id s \<and> cs_user_id x = Some uid)
                         (cart_sessions d))" by simp
  then show ?thesis by (auto simp: owns_cart_item_def filter_empty_conv)
qed

lemma product_rows:
  assumes "distinct (map p_id (products d))" and "prd \<in> set (products d)"
    and "p_status prd = Active"
  shows "filter (\<lambda>p. p_id p = p_id prd) (products d) = [prd]"
    and "filter (\<lambda>p. p_id p = p_id prd \<and> p_status p = Active) (products d) = [prd]"
proof -
  show one: "filter (\<lambda>p. p_id p = p_id prd) (products d) = [prd]"
    using assms(1,2) by (rule filter_key_single)
  have "filter (\<lambda>p. p_id p = p_id prd \<and> p_status p = Active) (products d)
          = filter (\<lambda>p. p_status p = Active) (filter (\<lambda>p. p_id p = p_id prd) (products d))"
    by (simp add: conj_commute)
  with one assms(3) show "filter (\<lambda>p. p_id p = p_id prd \<and> p_status p = Active) (products d) = [prd]"
    by simp
qed

text \<open>
  The four requests of the scenario with quantities sent as numbers, one after the other;
  \<open>D q\<close> is the database in which the user's session holds the one new line at
  quantity \<open>q\<close>.
\<close>

lemma scenario_steps:
  assumes uid: "uid \<noteq> 0" and pid: "1 \<le> p_id prd"
    and prods: "distinct (map p_id (products d))" "prd \<in> set (products d)" "p_status prd = Active"
    and qty: "1 \<le> a" "1 \<le> b" "a + b \<le> p_stock prd" "1 \<le> c" "c \<le> p_stock prd"
    and ids: "\<forall>ci \<in> set (cart_items d). ci_id ci \<noteq> next_cart_item_id d"
    and sess: "getOrCreateCartSession (Some uid) u1 d = Inr (sid, d0)"
    and none: "lines_of sid (p_id prd) d = []"
  defines "D \<equiv> \<lambda>q. d0\<lparr>cart_items := cart_items d @ [cart_line (next_cart_item_id d) sid (p_id prd) q],
                        next_cart_item_id := next_cart_item_id d + 1\<rparr>"
  shows "addItem (Some uid) (p_id prd) (JNum a) u1 d =
           (Response 200 ''Item added to cart successfully'' (SessionId None), D a)"
    and "addItem (Some uid) (p_id prd) (JNum b) u2 (D a) =
           (Response 200 ''Item added to cart successfully'' (SessionId None), D (a + b))"
    and "updateItem (Some uid) (next_cart_item_id d) (JNum c) (D (a + b)) =
           (Response 200 ''Cart updated successfully'' NoPayload, D c)"
    and "updateItem (Some uid) (next_cart_item_id d) (JNum 0) (D c) =
           (Response 200 ''Item removed from cart'' NoPayload,
            d0\<lparr>cart_items := cart_items d, next_cart_item_id := next_cart_item_id d + 1\<rparr>)"
    and "lines_of sid (p_id prd) (D q) = [cart_line (next_cart_item_id d) sid (p_id prd) q]"
    and "lines_of sid (p_id prd)
           (d0\<lparr>cart_items := cart_items d, next_cart_item_id := next_cart_item_id d + 1\<rparr>) = []"
proof -
  let ?n = "next_cart_item_id d"
  let ?pid = "p_id prd"
  note rows = product_rows [OF prods]
  note d0 = getOrCreateCartSession_items [OF sess]
  from getOrCreateCartSession_user [OF sess uid] obtain s rest where
    s: "sessions_of_user uid d0 = s # rest" "cs_session_id s = sid" by blast
  have sD: "sessions_of_user uid (D q) = s # rest" for q
    using s by (simp add: D_def sessions_of_user_def)
  have ownsD: "owns_cart_item (Some uid) sid (D q)" for q
    using owns_own_session [OF sD] s(2) by simp
  have prodD: "products (D q) = products d" for q
    using d0 by (simp add: D_def)
  have old: "map (\<lambda>ci. if ci_id ci = ?n then ci\<lparr>ci_quantity := q\<rparr> else ci) (cart_items d) = cart_items d" for q
    using ids by (intro map_idI) simp
  have old_f: "filter (\<lambda>ci. ci_id ci = ?n) (cart_items d) = []"
    using ids by (simp add: filter_empty_conv)
  have old_k: "filter (\<lambda>ci. ci_id ci \<noteq> ?n) (cart_items d) = cart_items d"
    using ids by (intro filter_all) simp
  have linesD: "lines_of sid ?pid (D q) = [cart_line ?n sid ?pid q]" for q
    using none by (simp add: lines_of_def D_def cart_line_def)
  have updD: "update_cart_quantity q' ?n (D q) = D q'" for q q'
    by (simp add: update_cart_quantity_def D_def old cart_line_def)
  have selD: "filter (\<lambda>ci. ci_id ci = ?n) (cart_items (D q)) = [cart_line ?n sid ?pid q]" for q
    by (simp add: D_def old_f cart_line_def)
  have joinD: "concat (map (\<lambda>ci. map (\<lambda>p. (ci, p)) (filter (\<lambda>p. p_id p = ci_product_id ci) (products (D q))))
                 (filter (\<lambda>ci. ci_id ci = ?n) (cart_items (D q)))) = [(cart_line ?n sid ?pid q, prd)]" for q
    by (simp add: selD prodD) (simp add: cart_line_def rows(1))

  have "lines_of sid ?pid d0 = []"
    using none d0 by (simp add: lines_of_def)
  moreover have "insert_cart_item sid ?pid a d0 = Inr (D a)"
  proof -
    have "(sid, ?pid) \<notin> set (map (\<lambda>ci. (ci_session_id ci, ci_product_id ci)) (cart_items d))"
      using none by (auto simp: lines_of_def filter_empty_conv)
    moreover have "?pid \<in> set (map p_id (products d))"
      using prods(2) by simp
    ultimately show ?thesis
      using d0 by (simp add: insert_cart_item_def D_def cart_line_def)
  qed
  ultimately show "addItem (Some uid) ?pid (JNum a) u1 d =
           (Response 200 ''Item added to cart successfully'' (SessionId None), D a)"
    using pid rows(2) qty sess by (simp add: addItem_def isInt_def js_less_def sql_int_def)

  have "getOrCreateCartSession (Some uid) u2 (D a) = Inr (sid, D a)"
    using getOrCreateCartSession_again [OF sD uid] s(2) by simp
  then show "addItem (Some uid) ?pid (JNum b) u2 (D a) =
           (Response 200 ''Item added to cart successfully'' (SessionId None), D (a + b))"
    using pid rows(2) qty
    by (simp add: addItem_def prodD linesD isInt_def js_less_def sql_int_def)
       (simp add: cart_line_def updD)

  show "updateItem (Some uid) ?n (JNum c) (D (a + b)) =
           (Response 200 ''Cart updated successfully'' NoPayload, D c)"
    using qty by (simp add: updateItem_def joinD isInt_def js_less_def sql_int_def)
       (simp add: cart_line_def ownsD updD)

  have "delete_cart_item ?n (D c) =
          d0\<lparr>cart_items := cart_items d, next_cart_item_id := ?n + 1\<rparr>"
    by (simp add: delete_cart_item_def D_def old_k cart_line_def)
  then show "updateItem (Some uid) ?n (JNum 0) (D c) =
           (Response 200 ''Item removed from cart'' NoPayload,
            d0\<lparr>cart_items := cart_items d, next_cart_item_id := ?n + 1\<rparr>)"
    by (simp add: updateItem_def joinD isInt_def) (simp add: cart_line_def ownsD)
  show "lines_of sid ?pid (D q) = [cart_line ?n sid ?pid q]"
    by (rule linesD)
  show "lines_of sid ?pid (d0\<lparr>cart_items := cart_items d, next_cart_item_id := ?n + 1\<rparr>) = []"
    using none by (simp add: lines_of_def)
qed

text \<open>
  With quantities sent as JSON numbers the routes do what claim C5 describes: for an
  authenticated user whose session resolves to \<open>sid\<close> and holds no line for the active
  product yet, adding \<open>a\<close> and then \<open>b\<close> pieces (within the stock) gives the single line
  of quantity \<open>a + b\<close>, updating that line to \<open>c\<close> gives quantity \<open>c\<close>, updating it to
  0 replies 200 and deletes it, and uniqueness of the (session, product) pairs is kept.
\<close>

lemma cart_add_additive_for_numbers:
  assumes "uid \<noteq> 0" and "1 \<le> p_id prd"
    and "distinct (map p_id (products d))" "prd \<in> set (products d)" "p_status prd = Active"
    and "1 \<le> a" "1 \<le> b" "a + b \<le> p_stock prd" "1 \<le> c" "c \<le> p_stock prd"
    and "\<forall>ci \<in> set (cart_items d). ci_id ci \<noteq> next_cart_item_id d"
    and "getOrCreateCartSession (Some uid) u1 d = Inr (sid, d0)"
    and "lines_of sid (p_id prd) d = []"
    and "addItem (Some uid) (p_id prd) (JNum a) u1 d = (r1, d1)"
    and "addItem (Some uid) (p_id prd) (JNum b) u2 d1 = (r2, d2)"
    and "updateItem (Some uid) (next_cart_item_id d) (JNum c) d2 = (r3, d3)"
    and "updateItem (Some uid) (next_cart_item_id d) (JNum 0) d3 = (r4, d4)"
  shows "status r1 = 200 \<and> status r2 = 200
       \<and> lines_of sid (p_id prd) d1 = [cart_line (next_cart_item_id d) sid (p_id prd) a]
       \<and> lines_of sid (p_id prd) d2 = [cart_line (next_cart_item_id d) sid (p_id prd) (a + b)]
       \<and> r3 = Response 200 ''Cart updated successfully'' NoPayload
       \<and> lines_of sid (p_id prd) d3 = [cart_line (next_cart_item_id d) sid (p_id prd) c]
       \<and> r4 = Response 200 ''Item removed from cart'' NoPayload
       \<and> lines_of sid (p_id prd) d4 = [] \<and> cart_items d4 = cart_items d
       \<and> (cart_unique d \<longrightarrow> cart_unique d1 \<and> cart_unique d2 \<and> cart_unique d3 \<and> cart_unique d4)"
proof -
  note steps = scenario_steps [OF assms(1-13)]
  from steps(1) assms(14) have 1: "status r1 = 200"
    "d1 = d0\<lparr>cart_items := cart_items d @ [cart_line (next_cart_item_id d) sid (p_id prd) a],
              next_cart_item_id := next_cart_item_id d + 1\<rparr>"
    by auto
  from steps(2) [of u2] assms(15) 1(2) have 2: "status r2 = 200"
    "d2 = d0\<lparr>cart_items := cart_items d @ [cart_line (next_cart_item_id d) sid (p_id prd) (a + b)],
              next_cart_item_id := next_cart_item_id d + 1\<rparr>"
    by auto
  from steps(3) assms(16) 2(2) have 3: "r3 = Response 200 ''Cart updated successfully'' NoPayload"
    "d3 = d0\<lparr>cart_items := cart_items d @ [cart_line (next_cart_item_id d) sid (p_id prd) c],
              next_cart_item_id := next_cart_item_id d + 1\<rparr>"
    by auto
  from steps(4) assms(17) 3(2) have 4: "r4 = Response 200 ''Item removed from cart'' NoPayload"
    "d4 = d0\<lparr>cart_items := cart_items d, next_cart_item_id := next_cart_item_id d + 1\<rparr>"
    by auto
  have lines: "lines_of sid (p_id prd) d1 = [cart_line (next_cart_item_id d) sid (p_id prd) a]"
    "lines_of sid (p_id prd) d2 = [cart_line (next_cart_item_id d) sid (p_id prd) (a + b)]"
    "lines_of sid (p_id prd) d3 = [cart_line (next_cart_item_id d) sid (p_id prd) c]"
    "lines_of sid (p_id prd) d4 = []"
    unfolding 1(2) 2(2) 3(2) 4(2) by (rule steps(5) steps(6))+
  have inv: "cart_unique d1 \<and> cart_unique d2 \<and> cart_unique d3 \<and> cart_unique d4"
    if u: "cart_unique d"
  proof -
    from addItem_cart_unique [OF u, of "Some uid" "p_id prd" "JNum a" u1] assms(14)
    have u1: "cart_unique d1" by simp
    from addItem_cart_unique [OF u1, of "Some uid" "p_id prd" "JNum b" u2] assms(15)
    have u2: "cart_unique d2" by simp
    from updateItem_cart_unique [OF u2, of "Some uid" "next_cart_item_id d" "JNum c"] assms(16)
    have u3: "cart_unique d3" by simp
    from updateItem_cart_unique [OF u3, of "Some uid" "next_cart_item_id d" "JNum 0"] assms(17)
    have "cart_unique d4" by simp
    with u1 u2 u3 show ?thesis by simp
  qed
  have "cart_items d4 = cart_items d" by (simp add: 4(2))
  with 1(1) 2(1) 3(1) 4(1) lines inv show ?thesis by blast
qed

lemma show_int_2: "show_int 2 = ''2''"
  by (simp add: show_int_def show_nat.simps)

text \<open>
  Claim C5 (add is additive, update replaces, update to 0 deletes), evaluated on the
  code. \<^verbatim>\<open>isInt()\<close> accepts the strings \<^verbatim>\<open>"2"\<close>, \<^verbatim>\<open>"3"\<close> and \<^verbatim>\<open>"0"\<close>, and no
  \<^verbatim>\<open>toInt()\<close> follows. User 8 adds \<^verbatim>\<open>"2"\<close> of product 1 (stock 10): a line of quantity
  2. Adding \<^verbatim>\<open>"3"\<close> then computes \<^verbatim>\<open>2 + "3"\<close>, the string \<^verbatim>\<open>"23"\<close>, which exceeds the
  stock: the reply is 400 and the line stays at 2, not 5. Updating the line to \<^verbatim>\<open>"0"\<close>
  fails the test \<^verbatim>\<open>quantity === 0\<close>: the reply is 200 and the line is kept with
  quantity 0 instead of being deleted.
\<close>

theorem cart_string_quantity:
  "isInt 1 (JStr ''2'') \<and> isInt 1 (JStr ''3'') \<and> isInt 0 (JStr ''0'')
   \<and> addItem (Some 8) 1 (JStr ''2'') ''u8'' shop =
       (Response 200 ''Item added to cart successfully'' (SessionId None),
        cart8 [cart_line 2 ''u8'' 1 2])
   \<and> js_plus 2 (JStr ''3'') = JStr ''23''
   \<and> addItem (Some 8) 1 (JStr ''3'') ''u0'' (cart8 [cart_line 2 ''u8'' 1 2]) =
       (Response 400 ''Cannot add more items. Only N available in stock'' (InStock 10),
        cart8 [cart_line 2 ''u8'' 1 2])
   \<and> updateItem (Some 8) 2 (JStr ''0'') (cart8 [cart_line 2 ''u8'' 1 2]) =
       (Response 200 ''Cart updated successfully'' NoPayload, cart8 [cart_line 2 ''u8'' 1 0])
   \<and> lines_of ''u8'' 1 (cart8 [cart_line 2 ''u8'' 1 0]) = [cart_line 2 ''u8'' 1 0]"
proof -
  have strings: "string_number ''2'' = Some 2" "string_number ''3'' = Some 3"
    "string_number ''0'' = Some 0" "string_number ''23'' = Some 23"
    by (simp_all add: string_number_def is_digit_def digits_value_def digit_value_def)
  have valid: "isInt 1 (JStr ''2'')" "isInt 1 (JStr ''3'')" "isInt 0 (JStr ''0'')"
    by (simp_all add: isInt_def strings)
  have plus: "js_plus 2 (JStr ''3'') = JStr ''23''"
    by (simp add: show_int_2)
  have first: "addItem (Some 8) 1 (JStr ''2'') ''u8'' shop =
       (Response 200 ''Item added to cart successfully'' (SessionId None),
        cart8 [cart_line 2 ''u8'' 1 2])"
    by (simp add: addItem_def isInt_def js_less_def sql_int_def strings
        getOrCreateCartSession_def sessions_of_user_def insert_cart_session_def
        insert_cart_item_def lines_of_def cart8_def cart_line_def shop_def)
  have second: "addItem (Some 8) 1 (JStr ''3'') ''u0'' (cart8 [cart_line 2 ''u8'' 1 2]) =
       (Response 400 ''Cannot add more items. Only N available in stock'' (InStock 10),
        cart8 [cart_line 2 ''u8'' 1 2])"
    by (simp add: addItem_def isInt_def js_less_def sql_int_def strings show_int_2
        getOrCreateCartSession_def sessions_of_user_def lines_of_def cart8_def cart_line_def
        shop_def)
  have third: "updateItem (Some 8) 2 (JStr ''0'') (cart8 [cart_line 2 ''u8'' 1 2]) =
       (Response 200 ''Cart updated successfully'' NoPayload, cart8 [cart_line 2 ''u8'' 1 0])"
    by (simp add: updateItem_def isInt_def js_less_def sql_int_def strings owns_cart_item_def
        update_cart_quantity_def cart8_def cart_line_def shop_def)
  have kept: "lines_of ''u8'' 1 (cart8 [cart_line 2 ''u8'' 1 0]) = [cart_line 2 ''u8'' 1 0]"
    by (simp add: lines_of_def cart8_def cart_line_def)
  from valid plus first second third kept show ?thesis by simp
qed

subsection \<open>Ownership of a line\<close>

text \<open>
  Claim C6 (every mutation of a cart line checks ownership), evaluated on the code. Line
  1 belongs to session \<^verbatim>\<open>s1\<close> of user 7. A caller without a user, who presents no
  token at all, sets its quantity, deletes it through the update route and deletes it
  through the remove route, each time with reply 200; the same requests from user 8 are
  answered 403.
\<close>

theorem anonymous_mutates_foreign_line:
  "cart_sessions shop = [\<lparr>cs_session_id = ''s1'', cs_user_id = Some 7\<rparr>]
   \<and> cart_items shop = [\<lparr>ci_id = 1, ci_session_id = ''s1'', ci_product_id = 1, ci_quantity = 4\<rparr>]
   \<and> updateItem None 1 (JNum 9) shop =
        (Response 200 ''Cart updated successfully'' NoPayload,
         shop\<lparr>cart_items := [\<lparr>ci_id = 1, ci_session_id = ''s1'', ci_product_id = 1, ci_quantity = 9\<rparr>]\<rparr>)
   \<and> updateItem None 1 (JNum 0) shop =
        (Response 200 ''Item removed from cart'' NoPayload, shop\<lparr>cart_items := []\<rparr>)
   \<and> removeItem None 1 shop =
        (Response 200 ''Item removed from cart'' NoPayload, shop\<lparr>cart_items := []\<rparr>)
   \<and> updateItem (Some 8) 1 (JNum 0) shop = (Response 403 ''Access denied'' NoPayload, shop)
   \<and> removeItem (Some 8) 1 shop = (Response 403 ''Access denied'' NoPayload, shop)"
  by (simp add: updateItem_def removeItem_def owns_cart_item_def delete_cart_item_def
        update_cart_quantity_def isInt_def js_less_def sql_int_def shop_def)

end
